theory Spec2Isabelle
  imports Main "HOL-Library.Word"
begin

section \<open>Data model of the malleable MPI-job controller\<close>

text \<open>
  The Go controller (\<^verbatim>\<open>pkg/controller/mpi_job_controller.go\<close>) keeps its scheduling
  state in a handful of maps, two sorted slices and one counter. The Go \<^verbatim>\<open>int\<close> and
  \<^verbatim>\<open>int32\<close> values (replica counts, priorities, slot counts) are modelled as unbounded
  \<open>int\<close>: they count pods of one cluster and stay far away from the 32-bit limits,
  and no property below depends on wrap-around.
\<close>

datatype CleanPodPolicy = CleanPodPolicyNone | CleanPodPolicyRunning | CleanPodPolicyAll

text \<open>
  The fields of \<^verbatim>\<open>kubeflow.MPIJob\<close> that the scheduler reads. \<open>jobKey\<close> is
  \<^verbatim>\<open>getJobKey\<close>, that is \<^verbatim>\<open>Namespace + "/" + Name\<close>; \<open>minReplicas\<close> and
  \<open>maxReplicas\<close> are those of the worker replica spec; \<open>suspend\<close> is
  \<^verbatim>\<open>isMPIJobSuspended\<close>; \<open>deletionTimestamp\<close> tells whether one is set;
  \<open>validationErrors\<close> whether \<^verbatim>\<open>ValidateMPIJob\<close> reports any; \<open>statusFinished\<close> is
  \<^verbatim>\<open>isFinished(mpiJob.Status)\<close>; \<open>completionTime\<close> tells whether
  \<^verbatim>\<open>Status.CompletionTime\<close> is set.
\<close>

record MPIJob =
  jobKey :: string
  specPriority :: int
  minReplicas :: int
  maxReplicas :: int
  cleanPodPolicy :: CleanPodPolicy
  suspend :: bool
  deletionTimestamp :: bool
  validationErrors :: bool
  statusFinished :: bool
  completionTime :: bool

text \<open>\<^verbatim>\<open>type Item struct { mpiJob kubeflow.MPIJob; priority int }\<close>\<close>

record Item =
  mpiJob :: MPIJob
  priority :: int

type_synonym PriorityQueue = "Item list"


section \<open>Priority queue\<close>

text \<open>
  \<^verbatim>\<open>Push\<close> appends and then sorts the whole slice with \<^verbatim>\<open>slices.SortFunc\<close> and
  \<^verbatim>\<open>compare\<close>, which orders by ascending \<open>priority\<close>. The Go sort leaves the order
  of equal priorities open; the model takes the stable insertion sort, and the
  properties proved below only use that the result is sorted.
\<close>

definition Push :: "PriorityQueue \<Rightarrow> Item \<Rightarrow> PriorityQueue" where
  "Push pq item = sort_key priority (pq @ [item])"

text \<open>
  \<^verbatim>\<open>Pop\<close> takes \<^verbatim>\<open>old[n-1]\<close> and shrinks the slice to \<^verbatim>\<open>old[0 : n-1]\<close>. On an
  empty queue the index \<^verbatim>\<open>-1\<close> panics: \<open>None\<close>.
\<close>

definition Pop :: "PriorityQueue \<Rightarrow> (Item \<times> PriorityQueue) option" where
  "Pop pq = (if pq = [] then None else Some (last pq, butlast pq))"


section \<open>Rescale client\<close>

text \<open>
  The C program \<^verbatim>\<open>rescale_client <host> <port> <old> <new>\<close>. Its calls into the CCS
  library are the environment: each of \<^verbatim>\<open>CcsConnect\<close>, \<^verbatim>\<open>CcsSendRequest\<close> and
  \<^verbatim>\<open>CcsRecvResponse\<close> either returns \<^verbatim>\<open>-1\<close> or succeeds.
\<close>

type_synonym byte = "8 word"

record ccs =
  CcsConnect :: "string \<Rightarrow> int \<Rightarrow> bool"
  CcsSendRequest :: "string \<Rightarrow> byte list \<Rightarrow> bool"
  CcsRecvResponse :: "bool"

text \<open>
  What a run of the client leaves behind: the text printed, the exit code, and the
  request handed to \<^verbatim>\<open>CcsSendRequest\<close> (handler name and \<^verbatim>\<open>cmdLen\<close> bytes of the
  buffer), if the run got that far.
\<close>

record client_run =
  printed :: string
  exit_code :: int
  request :: "(string \<times> byte list) option"

text \<open>
  \<^verbatim>\<open>memcpy(&bitmap[OLDNPROCS], &NEWNPROCS, sizeof(int))\<close> copies the four bytes of a
  two's complement \<^verbatim>\<open>int\<close> as they lie in memory; on the little-endian machines the
  operator image is built for, the least significant byte comes first.
\<close>

definition int_bytes :: "int \<Rightarrow> byte list" where
  "int_bytes n = [word_of_int n, word_of_int (n div 256),
                  word_of_int (n div 65536), word_of_int (n div 16777216)]"

text \<open>
  \<^verbatim>\<open>cmdLen = OLDNPROCS * sizeof(char) + sizeof(int) + sizeof(char)\<close>: the sum is
  stored in a C \<^verbatim>\<open>int\<close> of 32 bits, so it wraps round into the range from \<open>-2^31\<close> up
  to \<open>2^31 - 1\<close>.
\<close>

definition cmdLen :: "int \<Rightarrow> int" where
  "cmdLen OLDNPROCS =
     (let n = (OLDNPROCS * 1 + 4 + 1) mod 4294967296
      in if n < 2147483648 then n else n - 4294967296)"

text \<open>
  The two \<^verbatim>\<open>for\<close> loops over \<^verbatim>\<open>i < OLDNPROCS\<close>, which fill the bitmap.
\<close>

definition fill_bitmap :: "bool \<Rightarrow> int \<Rightarrow> int \<Rightarrow> byte list" where
  "fill_bitmap expand_mode OLDNPROCS NEWNPROCS =
     (if expand_mode then map (\<lambda>i. 1) [0..<nat OLDNPROCS]
      else map (\<lambda>i. if int i < NEWNPROCS then 1 else 0) [0..<nat OLDNPROCS])"

text \<open>
  The buffer as it is handed to \<^verbatim>\<open>CcsSendRequest\<close>: \<^verbatim>\<open>malloc(cmdLen)\<close>, the bitmap,
  the copied integer at \<^verbatim>\<open>bitmap[OLDNPROCS]\<close> and the final \<^verbatim>\<open>'\0'\<close> at
  \<^verbatim>\<open>bitmap[OLDNPROCS + sizeof(int)]\<close>. The program writes \<^verbatim>\<open>OLDNPROCS + 5\<close> bytes from
  \<^verbatim>\<open>bitmap[0]\<close> on (from \<^verbatim>\<open>bitmap[OLDNPROCS]\<close> on when \<^verbatim>\<open>OLDNPROCS\<close> is negative). When
  these do not lie within the \<^verbatim>\<open>cmdLen\<close> bytes asked for, because \<^verbatim>\<open>OLDNPROCS\<close> is
  negative or because \<^verbatim>\<open>cmdLen\<close> has wrapped (\<^verbatim>\<open>malloc\<close> is then called with a
  negative \<^verbatim>\<open>int\<close>), C leaves the behaviour undefined and no message is built: \<open>None\<close>.
\<close>

definition build_command :: "bool \<Rightarrow> int \<Rightarrow> int \<Rightarrow> byte list option" where
  "build_command expand_mode OLDNPROCS NEWNPROCS =
     (if OLDNPROCS < 0 \<or> cmdLen OLDNPROCS < OLDNPROCS + 4 + 1 then None
      else Some (take (nat (cmdLen OLDNPROCS))
                   (fill_bitmap expand_mode OLDNPROCS NEWNPROCS @ int_bytes NEWNPROCS @ [0])))"

text \<open>
  \<^verbatim>\<open>main\<close>. The arguments arrive already parsed (\<^verbatim>\<open>sscanf\<close> with \<^verbatim>\<open>%d\<close> on what the
  controller printed with \<^verbatim>\<open>fmt.Sprint\<close>). \<open>None\<close> is a run with undefined behaviour.
  \<^verbatim>\<open>argv[0]\<close> is the path the controller runs, \<^verbatim>\<open>./opt/rescale_client\<close>.
\<close>

definition rescale_client ::
  "ccs \<Rightarrow> nat \<Rightarrow> string \<Rightarrow> int \<Rightarrow> int \<Rightarrow> int \<Rightarrow> client_run option" where
  "rescale_client lib argc host port OLDNPROCS NEWNPROCS =
     (if argc < 5 then
        Some \<lparr>printed = ''Usage: ./opt/rescale_client <hostname> <port> <oldprocs> <newprocs> ''
                         @ [CHR 0x0A],
              exit_code = 1, request = None\<rparr>
      else if \<not> (NEWNPROCS > OLDNPROCS) \<and> \<not> (OLDNPROCS > NEWNPROCS) then
        Some \<lparr>printed = ''0'', exit_code = 0, request = None\<rparr>
      else if \<not> CcsConnect lib host port then
        Some \<lparr>printed = ''0'', exit_code = 0, request = None\<rparr>
      else
        (case build_command (NEWNPROCS > OLDNPROCS) OLDNPROCS NEWNPROCS of
           None \<Rightarrow> None
         | Some bitmap \<Rightarrow>
             if \<not> CcsSendRequest lib ''set_bitmap'' bitmap then
               Some \<lparr>printed = ''0'', exit_code = 0, request = Some (''set_bitmap'', bitmap)\<rparr>
             else if \<not> CcsRecvResponse lib then
               Some \<lparr>printed = ''0'', exit_code = 0, request = Some (''set_bitmap'', bitmap)\<rparr>
             else
               Some \<lparr>printed = ''1'', exit_code = 0, request = Some (''set_bitmap'', bitmap)\<rparr>))"

text \<open>
  Errors a reconcile pass can return. \<open>JobQueued\<close> is the sentinel
  \<^verbatim>\<open>jobQueuedError\<close>; \<open>RescaleFailed\<close> is what \<^verbatim>\<open>signalRescale\<close> builds with
  \<^verbatim>\<open>fmt.Errorf\<close>; \<open>ExecFailed\<close> is the error of \<^verbatim>\<open>exec.Command\<close>;
  \<open>ResourceExists\<close> is the error built from \<^verbatim>\<open>MessageResourceExists\<close> when an object
  of the expected name is not controlled by the job; \<open>ApiError\<close> stands for any error
  of the cluster API.
\<close>

datatype error = JobQueued | RescaleFailed string | ExecFailed | ResourceExists | ApiError

text \<open>
  \<^verbatim>\<open>signalRescale\<close> runs the client with \<^verbatim>\<open>CombinedOutput\<close>. \<open>started\<close> tells
  whether the binary could be run at all; otherwise the output is empty and \<^verbatim>\<open>err\<close>
  is set, as it is for a non-zero exit code or a crashed client.
  The result is Go's \<^verbatim>\<open>error\<close>: \<open>None\<close> is \<^verbatim>\<open>nil\<close>.
\<close>

definition signalRescale ::
  "bool \<Rightarrow> ccs \<Rightarrow> string \<Rightarrow> int \<Rightarrow> int \<Rightarrow> int \<Rightarrow> error option" where
  "signalRescale started lib ipAddr port oldProcs newProcs =
     (let run = (if started then rescale_client lib 5 ipAddr port oldProcs newProcs else None);
          out = (case run of None \<Rightarrow> [] | Some r \<Rightarrow> printed r);
          err = (case run of None \<Rightarrow> True | Some r \<Rightarrow> exit_code r \<noteq> 0)
      in if out = ''0'' then Some (RescaleFailed out)
         else if err then Some ExecFailed
         else None)"


section \<open>Controller state and the cluster it sees\<close>

text \<open>The string constants of the job status map and of the deferred-action map.\<close>

datatype jobState = created | queued | running | completed

datatype action = expand | shrink | create | complete | noop

datatype PodPhase = PodPending | PodRunning | PodSucceeded | PodFailed | PodUnknown

text \<open>
  What the controller reads of a pod: the replica index of its label and name, the
  phase, the \<^verbatim>\<open>Ready\<close> condition, whether \<^verbatim>\<open>metav1.IsControlledBy\<close> holds for the job
  at hand, and the pod IP.
\<close>

record Pod =
  podIndex :: nat
  phase :: PodPhase
  podReady :: bool
  controlledByJob :: bool
  podIP :: string

text \<open>
  The launcher \<^verbatim>\<open>batchv1.Job\<close>: \<^verbatim>\<open>isJobFinished\<close>, \<^verbatim>\<open>isJobSuspended\<close>, and the result
  of \<^verbatim>\<open>jobPods\<close> for it.
\<close>

record Launcher =
  launcherFinished :: bool
  launcherSuspended :: bool
  jobPods :: "error + Pod list"

datatype deletion = Deleted | DeleteNotFound | DeleteFailed

text \<open>
  The scheduling fields of \<^verbatim>\<open>MPIJobController\<close>. A Go map is a partial function; the
  two priority queues are lists; \<open>queue\<close> records the keys handed to
  \<^verbatim>\<open>c.queue.AddRateLimited\<close>, in order.
\<close>

record MPIJobController =
  latestReplicas :: "string \<rightharpoonup> int"
  configMaps :: "string \<rightharpoonup> string"
  jobStatus :: "string \<rightharpoonup> jobState"
  deferredAction :: "string \<rightharpoonup> action"
  oldExpandReplicas :: "string \<rightharpoonup> int"
  runningJobs :: PriorityQueue
  queuedJobs :: PriorityQueue
  freeSlots :: int
  queue :: "string list"

text \<open>
  The cluster as one reconcile pass sees it: the content of the informer caches and
  the answers of the API server to the calls of the pass. Everything is indexed by
  the job key.
  \<^item> \<open>mpiJobLister\<close>: \<open>None\<close> is \<^verbatim>\<open>NotFound\<close>.
  \<^item> \<open>podCache\<close>: the worker pods of the job in the pod informer's cache;
    \<open>podListError\<close>: the error of \<^verbatim>\<open>workerSelector\<close> or \<^verbatim>\<open>List\<close>, if any.
  \<^item> \<open>podsCreate\<close>, \<open>podsDelete\<close>: the answers to \<^verbatim>\<open>Pods(ns).Create\<close> and
    \<^verbatim>\<open>Pods(ns).Delete\<close> for the worker of an index.
  \<^item> \<open>getLauncherJob\<close>: the result of the function of that name (\<open>Inr None\<close> is
    \<^verbatim>\<open>nil, nil\<close>); \<open>jobsCreate\<close>, \<open>jobsUpdate\<close>: the answers for the launcher job.
  \<^item> \<open>getOrCreateService\<close>, \<open>getOrCreateSSHAuthSecret\<close>, \<open>deletePodGroups\<close>,
    \<open>updateStatusHandler\<close>, \<open>updateMPIJobStatus\<close>: the error of these calls, if any
    (templating and status bookkeeping are outside the scheduler).
    \<open>getOrCreatePodGroups\<close>: \<open>None\<close> when there is no gang scheduler or the pod group
    is fine, otherwise what \<^verbatim>\<open>syncHandler\<close> returns at once.
  \<^item> \<open>getOrCreateConfigMap\<close>: for a worker count, the hostfile text of the config map
    returned, or the error; \<open>getConfigMap\<close>: the hostfile text of the persisted config
    map (\<open>None\<close> when the lister fails).
  \<^item> \<open>execStarted\<close>, \<open>ccsLib\<close>: whether \<^verbatim>\<open>./opt/rescale_client\<close> can be run, and how
    the launcher's CCS endpoint answers it.
\<close>

record cluster =
  mpiJobLister :: "string \<Rightarrow> (error + MPIJob) option"
  podCache :: "string \<Rightarrow> Pod list"
  podListError :: "string \<Rightarrow> error option"
  podsCreate :: "string \<Rightarrow> nat \<Rightarrow> error + Pod"
  podsDelete :: "string \<Rightarrow> nat \<Rightarrow> deletion"
  getLauncherJob :: "string \<Rightarrow> error + Launcher option"
  jobsCreate :: "string \<Rightarrow> error + Launcher"
  jobsUpdate :: "string \<Rightarrow> error option"
  getOrCreateService :: "string \<Rightarrow> error option"
  getOrCreateSSHAuthSecret :: "string \<Rightarrow> error option"
  getOrCreatePodGroups :: "string \<Rightarrow> error option option"
  deletePodGroups :: "string \<Rightarrow> error option"
  getOrCreateConfigMap :: "string \<Rightarrow> int \<Rightarrow> error + string"
  getConfigMap :: "string \<Rightarrow> string option"
  updateStatusHandler :: "string \<Rightarrow> error option"
  updateMPIJobStatus :: "string \<Rightarrow> error option"
  execStarted :: bool
  ccsLib :: ccs

text \<open>
  How a pass of \<^verbatim>\<open>syncHandler\<close> ends: it returns \<^verbatim>\<open>nil\<close>, it returns an error, or it
  panics (a nil pointer or a slice bound). A pass that never ends has no outcome: the
  functions below return \<open>None\<close> for it.
\<close>

datatype outcome = Done | Failed error | Panic

text \<open>One turn of a \<^verbatim>\<open>for { ... }\<close> loop either leaves the loop or goes round again.\<close>

datatype ('r, 's) iteration = Break 'r | Continue 's

definition ccsPort :: int where
  "ccsPort = 1234"

text \<open>The state \<^verbatim>\<open>NewMPIJobController\<close> starts with: empty maps and queues, ten slots.\<close>

definition NewMPIJobController :: MPIJobController where
  "NewMPIJobController =
     \<lparr>latestReplicas = Map.empty, configMaps = Map.empty, jobStatus = Map.empty,
      deferredAction = Map.empty, oldExpandReplicas = Map.empty,
      runningJobs = [], queuedJobs = [], freeSlots = 10, queue = []\<rparr>"

text \<open>Reading a Go map yields the zero value for a missing key.\<close>

definition replicasOf :: "(string \<rightharpoonup> int) \<Rightarrow> string \<Rightarrow> int" where
  "replicasOf m k = (case m k of None \<Rightarrow> 0 | Some n \<Rightarrow> n)"

definition hostfileOf :: "(string \<rightharpoonup> string) \<Rightarrow> string \<Rightarrow> string" where
  "hostfileOf m k = (case m k of None \<Rightarrow> [] | Some text \<Rightarrow> text)"

definition isPodRunning :: "Pod \<Rightarrow> bool" where
  "isPodRunning p = (phase p = PodRunning)"

definition isPodPending :: "Pod \<Rightarrow> bool" where
  "isPodPending p = (phase p = PodPending)"

definition isCleanUpPods :: "CleanPodPolicy \<Rightarrow> bool" where
  "isCleanUpPods policy =
     (if policy = CleanPodPolicyAll \<or> policy = CleanPodPolicyRunning then True else False)"

text \<open>
  \<^verbatim>\<open>podLister.Pods(ns).List(selector)\<close> with the worker selector of the job, and
  \<^verbatim>\<open>podLister.Pods(ns).Get(name)\<close> for the worker of an index (\<open>None\<close> is \<^verbatim>\<open>NotFound\<close>).
\<close>

definition podListerList :: "cluster \<Rightarrow> MPIJob \<Rightarrow> error + Pod list" where
  "podListerList cl job =
     (case podListError cl (jobKey job) of
        Some err \<Rightarrow> Inl err
      | None \<Rightarrow> Inr (podCache cl (jobKey job)))"

definition podListerGet :: "cluster \<Rightarrow> MPIJob \<Rightarrow> nat \<Rightarrow> Pod option" where
  "podListerGet cl job workerIndex =
     find (\<lambda>pod. podIndex pod = workerIndex) (podCache cl (jobKey job))"

definition getRunningWorkerPods :: "cluster \<Rightarrow> MPIJob \<Rightarrow> error + Pod list" where
  "getRunningWorkerPods cl job =
     (case podListerList cl job of
        Inl err \<Rightarrow> Inl err
      | Inr podFullList \<Rightarrow> Inr (filter (\<lambda>pod. phase pod = PodRunning) podFullList))"

definition countReadyWorkerPods :: "Pod list \<Rightarrow> nat" where
  "countReadyWorkerPods workers = length (filter podReady workers)"

text \<open>
  \<^verbatim>\<open>sendRescaleSignal\<close>: without a launcher job, or without a launcher pod, it returns
  \<^verbatim>\<open>nil\<close> and signals nothing.
\<close>

definition sendRescaleSignal :: "cluster \<Rightarrow> MPIJob \<Rightarrow> int \<Rightarrow> int \<Rightarrow> error option" where
  "sendRescaleSignal cl job oldPodCount newPodCount =
     (case getLauncherJob cl (jobKey job) of
        Inl err \<Rightarrow> Some err
      | Inr None \<Rightarrow> None
      | Inr (Some launcher) \<Rightarrow>
          (case jobPods launcher of
             Inl err \<Rightarrow> Some err
           | Inr [] \<Rightarrow> None
           | Inr (pod # _) \<Rightarrow>
               signalRescale (execStarted cl) (ccsLib cl) (podIP pod) ccsPort
                 oldPodCount newPodCount))"


section \<open>Admission: \<^verbatim>\<open>calculateWorkerReplicas\<close>\<close>

text \<open>
  The first loop of \<^verbatim>\<open>calculateWorkerReplicas\<close>, the dry run. It walks
  \<^verbatim>\<open>c.runningJobs\<close> from the last index down and only counts. \<open>index\<close> starts at
  \<^verbatim>\<open>len(c.runningJobs) - 1\<close> and is decremented right after the entry is read.
  \<open>Inl\<close> is the error of \<^verbatim>\<open>getRunningWorkerPods\<close>, \<open>Inr\<close> the value of
  \<^verbatim>\<open>numWorkersToFree\<close> when the loop is left.
\<close>

function dryRunShrink ::
  "cluster \<Rightarrow> MPIJobController \<Rightarrow> MPIJob \<Rightarrow> int \<Rightarrow> int \<Rightarrow> error + int" where
  "dryRunShrink cl c job numWorkersToFree index =
     (if numWorkersToFree = 0 \<or> index < 0 then Inr numWorkersToFree
      else
        (let it = runningJobs c ! nat index in
         if specPriority (mpiJob it) > specPriority job then Inr numWorkersToFree
         else
           (case getRunningWorkerPods cl (mpiJob it) of
              Inl err \<Rightarrow> Inl err
            | Inr workerPodList \<Rightarrow>
                (let jobMinReplicas = minReplicas (mpiJob it) in
                 if int (length workerPodList) > jobMinReplicas then
                   (let newPodCount =
                          max jobMinReplicas (int (length workerPodList) - numWorkersToFree)
                    in dryRunShrink cl c job
                         (numWorkersToFree - (int (length workerPodList) - newPodCount))
                         (index - 1))
                 else dryRunShrink cl c job numWorkersToFree (index - 1)))))"
  by pat_completeness auto
termination
  by (relation "measure (\<lambda>(cl, c, job, numWorkersToFree, index). nat (index + 1))") auto

declare dryRunShrink.simps [simp del]

text \<open>
  One turn of the second loop, the commit pass. The state of the loop is the
  controller, \<^verbatim>\<open>numWorkersToFree\<close> and \<^verbatim>\<open>index\<close>. Here \<^verbatim>\<open>index -= 1\<close> comes after
  the test of the job status, so the \<^verbatim>\<open>continue\<close> of that test goes round with the
  same index; the \<^verbatim>\<open>continue\<close> after a failed signal comes after the decrement.
  Leaving the loop gives the error of \<^verbatim>\<open>getRunningWorkerPods\<close> (or none), the
  controller and \<^verbatim>\<open>numWorkersToFree\<close>.
\<close>

definition commitShrinkStep ::
  "cluster \<Rightarrow> MPIJob \<Rightarrow> MPIJobController \<Rightarrow> int \<Rightarrow> int
     \<Rightarrow> (error option \<times> MPIJobController \<times> int, MPIJobController \<times> int \<times> int) iteration" where
  "commitShrinkStep cl job c numWorkersToFree index =
     (if numWorkersToFree = 0 \<or> index < 0 then Break (None, c, numWorkersToFree)
      else
        (let it = runningJobs c ! nat index in
         if specPriority (mpiJob it) > specPriority job then Break (None, c, numWorkersToFree)
         else if jobStatus c (jobKey (mpiJob it)) \<noteq> Some running then
           Continue (c, numWorkersToFree, index)
         else
           (case getRunningWorkerPods cl (mpiJob it) of
              Inl err \<Rightarrow> Break (Some err, c, numWorkersToFree)
            | Inr workerPodList \<Rightarrow>
                (let jobMinReplicas = minReplicas (mpiJob it) in
                 if int (length workerPodList) > jobMinReplicas then
                   (let newPodCount =
                          max jobMinReplicas (int (length workerPodList) - numWorkersToFree)
                    in case sendRescaleSignal cl (mpiJob it)
                              (int (length workerPodList)) newPodCount of
                         Some err \<Rightarrow> Continue (c, numWorkersToFree, index - 1)
                       | None \<Rightarrow>
                           Continue
                             (c\<lparr>latestReplicas :=
                                   (latestReplicas c)(jobKey (mpiJob it) \<mapsto> newPodCount),
                                 freeSlots :=
                                   freeSlots c + (int (length workerPodList) - newPodCount),
                                 queue := queue c @ [jobKey (mpiJob it)]\<rparr>,
                              numWorkersToFree - (int (length workerPodList) - newPodCount),
                              index - 1))
                 else Continue (c, numWorkersToFree, index - 1)))))"

text \<open>The commit loop. It need not end: \<open>None\<close> is a loop that goes round forever.\<close>

partial_function (option) commitShrink ::
  "cluster \<Rightarrow> MPIJob \<Rightarrow> MPIJobController \<Rightarrow> int \<Rightarrow> int
     \<Rightarrow> (error option \<times> MPIJobController \<times> int) option" where
  "commitShrink cl job c numWorkersToFree index =
     (case commitShrinkStep cl job c numWorkersToFree index of
        Break r \<Rightarrow> Some r
      | Continue (c', numWorkersToFree', index') \<Rightarrow>
          commitShrink cl job c' numWorkersToFree' index')"

declare commitShrink.simps [code]

text \<open>
  \<^verbatim>\<open>calculateWorkerReplicas\<close> returns the pair \<^verbatim>\<open>(int32, error)\<close> and leaves the
  controller changed by the commit pass. The conversions through \<^verbatim>\<open>float64\<close> and
  \<^verbatim>\<open>math.Min\<close>, \<^verbatim>\<open>math.Max\<close> are exact on pod counts.
\<close>

definition calculateWorkerReplicas ::
  "cluster \<Rightarrow> MPIJobController \<Rightarrow> MPIJob
     \<Rightarrow> ((int \<times> error option) \<times> MPIJobController) option" where
  "calculateWorkerReplicas cl c job =
     (let replicas = min (freeSlots c - 1) (maxReplicas job) in
      if replicas < minReplicas job then
        (case dryRunShrink cl c job (minReplicas job - freeSlots c + 1)
                (int (length (runningJobs c)) - 1) of
           Inl err \<Rightarrow> Some ((-1, Some err), c)
         | Inr numWorkersToFree \<Rightarrow>
             if numWorkersToFree > 0 then Some ((-1, Some JobQueued), c)
             else
               (case commitShrink cl job c (minReplicas job - freeSlots c + 1)
                       (int (length (runningJobs c)) - 1) of
                  None \<Rightarrow> None
                | Some (Some err, c', numWorkersToFree') \<Rightarrow> Some ((-1, Some err), c')
                | Some (None, c', numWorkersToFree') \<Rightarrow>
                    if numWorkersToFree' > 0 then Some ((-1, Some JobQueued), c')
                    else Some ((minReplicas job, None), c')))
      else Some ((replicas, None), c))"

definition enqueueJobInternal :: "MPIJobController \<Rightarrow> MPIJob \<Rightarrow> MPIJobController" where
  "enqueueJobInternal c job =
     (if jobKey job \<in> set (map (\<lambda>item. jobKey (mpiJob item)) (queuedJobs c)) then c
      else c\<lparr>queuedJobs := Push (queuedJobs c) \<lparr>mpiJob = job, priority = specPriority job\<rparr>,
             jobStatus := (jobStatus c)(jobKey job \<mapsto> queued)\<rparr>)"

text \<open>
  \<^verbatim>\<open>checkJobQueue\<close>: the replica count returned is stored even when the call returns
  an error. \<open>None\<close> when a call of \<^verbatim>\<open>calculateWorkerReplicas\<close> does not return.
\<close>

partial_function (option) checkJobQueue ::
  "cluster \<Rightarrow> MPIJobController \<Rightarrow> nat \<Rightarrow> MPIJobController option" where
  "checkJobQueue cl c index =
     (if index = length (queuedJobs c) then Some c
      else
        (let job = mpiJob (queuedJobs c ! index) in
         case calculateWorkerReplicas cl c job of
           None \<Rightarrow> None
         | Some ((replicas, err), c) \<Rightarrow>
             (let c = c\<lparr>latestReplicas := (latestReplicas c)(jobKey job \<mapsto> replicas)\<rparr> in
              if err \<noteq> None then checkJobQueue cl c (index + 1)
              else
                (let c = c\<lparr>queue := queue c @ [jobKey job]\<rparr> in
                 if int index < int (length (queuedJobs c)) - 1 then
                   checkJobQueue cl
                     (c\<lparr>queuedJobs :=
                          take index (queuedJobs c) @ drop (index + 1) (queuedJobs c)\<rparr>)
                     index
                 else checkJobQueue cl (c\<lparr>queuedJobs := take index (queuedJobs c)\<rparr>) index))))"

declare checkJobQueue.simps [code]


section \<open>Worker pods\<close>

text \<open>
  \<^verbatim>\<open>removeWorker\<close>: the slot is released once \<^verbatim>\<open>Delete\<close> returned no error or
  \<^verbatim>\<open>NotFound\<close>. \<^verbatim>\<open>deleteWorkerPods\<close> calls it for every index below \<^verbatim>\<open>MaxReplicas\<close>
  and drops its error.
\<close>

definition removeWorker ::
  "cluster \<Rightarrow> MPIJobController \<Rightarrow> MPIJob \<Rightarrow> nat \<Rightarrow> error option \<times> MPIJobController" where
  "removeWorker cl c job index =
     (case podListerGet cl job index of
        None \<Rightarrow> (None, c)
      | Some pod \<Rightarrow>
          if \<not> controlledByJob pod then (Some ResourceExists, c)
          else if cleanPodPolicy job = CleanPodPolicyRunning
                  \<and> \<not> isPodRunning pod \<and> \<not> isPodPending pod then (None, c)
          else if podsDelete cl (jobKey job) index = DeleteFailed then (Some ApiError, c)
          else (None, c\<lparr>freeSlots := freeSlots c + 1\<rparr>))"

definition deleteWorkerPods :: "cluster \<Rightarrow> MPIJobController \<Rightarrow> MPIJob \<Rightarrow> MPIJobController" where
  "deleteWorkerPods cl c job =
     foldl (\<lambda>c i. snd (removeWorker cl c job i)) c [0..<nat (maxReplicas job)]"

definition cleanUpWorkerPods ::
  "cluster \<Rightarrow> MPIJobController \<Rightarrow> MPIJob \<Rightarrow> error option \<times> MPIJobController" where
  "cleanUpWorkerPods cl c job =
     (let c = deleteWorkerPods cl c job in
      case deletePodGroups cl (jobKey job) of
        Some err \<Rightarrow> (Some err, c)
      | None \<Rightarrow> (None, c))"

text \<open>
  \<^verbatim>\<open>addWorker\<close>: when the pod is not in the cache it is created, and the slot is taken
  whether or not \<^verbatim>\<open>Create\<close> succeeded.
\<close>

definition addWorker ::
  "cluster \<Rightarrow> MPIJobController \<Rightarrow> MPIJob \<Rightarrow> nat \<Rightarrow> (error + Pod) \<times> MPIJobController" where
  "addWorker cl c job workerIndex =
     (case podListerGet cl job workerIndex of
        None \<Rightarrow>
          (let c = c\<lparr>freeSlots := freeSlots c - 1\<rparr> in
           case podsCreate cl (jobKey job) workerIndex of
             Inl err \<Rightarrow> (Inl err, c)
           | Inr pod \<Rightarrow> if \<not> controlledByJob pod then (Inl ResourceExists, c) else (Inr pod, c))
      | Some pod \<Rightarrow> if \<not> controlledByJob pod then (Inl ResourceExists, c) else (Inr pod, c))"

text \<open>
  The two loops of \<^verbatim>\<open>getOrCreateWorker\<close>: deleting the pods whose index is not below
  the replica count (any error of \<^verbatim>\<open>Delete\<close> ends the pass; no slot is released
  here), and adding the workers \<^verbatim>\<open>0 .. replicas - 1\<close>.
\<close>

fun deleteExtraPods :: "cluster \<Rightarrow> MPIJob \<Rightarrow> int \<Rightarrow> Pod list \<Rightarrow> error option" where
  "deleteExtraPods cl job replicas [] = None"
| "deleteExtraPods cl job replicas (pod # pods) =
     (if int (podIndex pod) \<ge> replicas \<and> podsDelete cl (jobKey job) (podIndex pod) \<noteq> Deleted
      then Some ApiError
      else deleteExtraPods cl job replicas pods)"

fun addWorkers ::
  "cluster \<Rightarrow> MPIJobController \<Rightarrow> MPIJob \<Rightarrow> Pod list \<Rightarrow> nat list
     \<Rightarrow> (Pod list \<times> error option) \<times> MPIJobController" where
  "addWorkers cl c job workerPods [] = ((workerPods, None), c)"
| "addWorkers cl c job workerPods (i # is) =
     (case addWorker cl c job i of
        (Inl err, c) \<Rightarrow> ((workerPods, Some err), c)
      | (Inr pod, c) \<Rightarrow> addWorkers cl c job (workerPods @ [pod]) is)"

definition getOrCreateWorker ::
  "cluster \<Rightarrow> MPIJobController \<Rightarrow> MPIJob \<Rightarrow> (Pod list \<times> error option) \<times> MPIJobController" where
  "getOrCreateWorker cl c job =
     (case podListerList cl job of
        Inl err \<Rightarrow> (([], Some err), c)
      | Inr podFullList \<Rightarrow>
          (let replicas = replicasOf (latestReplicas c) (jobKey job) in
           if replicas - int (length podFullList) > freeSlots c
           then ((podFullList, Some JobQueued), c)
           else
             (case (if int (length podFullList) > replicas
                    then deleteExtraPods cl job replicas podFullList else None) of
                Some err \<Rightarrow> (([], Some err), c)
              | None \<Rightarrow> addWorkers cl c job [] [0..<nat replicas])))"


section \<open>Completion: cleanup and rebalance\<close>

text \<open>
  The loop \<^verbatim>\<open>for idx, item := range c.runningJobs\<close> that removes the finished job. The
  range runs over the slice as it was when the loop started (\<open>backing\<close>, whose length
  never changes), while \<^verbatim>\<open>append(c.runningJobs[:idx], c.runningJobs[idx+1:]...)\<close>
  shifts the elements of the same array to the left and shortens \<^verbatim>\<open>c.runningJobs\<close>
  to \<open>len\<close>. After a removal the range therefore skips the element that moved into
  place \<open>idx\<close>, and reads a stale copy of the last element at the end. Slicing
  \<^verbatim>\<open>c.runningJobs[idx+1:]\<close> beyond the current length panics: \<open>None\<close>.
\<close>

function removeFromRunningJobs ::
  "string \<Rightarrow> Item list \<Rightarrow> nat \<Rightarrow> nat \<Rightarrow> Item list option" where
  "removeFromRunningJobs key backing len idx =
     (if idx \<ge> length backing then Some (take len backing)
      else if jobKey (mpiJob (backing ! idx)) = key then
        (if idx + 1 > len then None
         else removeFromRunningJobs key
                (take idx backing @ drop (idx + 1) (take len backing) @ drop (len - 1) backing)
                (len - 1) (idx + 1))
      else removeFromRunningJobs key backing len (idx + 1))"
  by pat_completeness auto
termination
  by (relation "measure (\<lambda>(key, backing, len, idx). length backing - idx)") auto

declare removeFromRunningJobs.simps [simp del]

text \<open>
  The state of the expansion loop that runs after the cleanup: the controller, the
  budget \<^verbatim>\<open>numFreeWorkers\<close>, the two cursors and the two item pointers (\<open>None\<close> is
  \<^verbatim>\<open>nil\<close>).
\<close>

record rebalance_state =
  ctrl :: MPIJobController
  numFreeWorkers :: int
  idxRunning :: nat
  idxQueued :: nat
  itQueued :: "Item option"
  itRunning :: "Item option"

text \<open>
  The head of one turn (the three \<^verbatim>\<open>if\<close> statements on the cursors): a cursor that
  has reached the end of its queue gives the priority \<^verbatim>\<open>-1\<close> and leaves its item
  pointer as it was; then the side with the greater priority value is taken, the
  running side on a tie. The result is \<^verbatim>\<open>it\<close> and the state with the cursor moved.
\<close>

definition pickNext :: "rebalance_state \<Rightarrow> Item option \<times> rebalance_state" where
  "pickNext s =
     (let c = ctrl s;
          s = (if idxRunning s < length (runningJobs c)
               then s\<lparr>itRunning := Some (runningJobs c ! idxRunning s)\<rparr> else s);
          runPriority = (if idxRunning s < length (runningJobs c)
                         then specPriority (mpiJob (runningJobs c ! idxRunning s)) else -1);
          s = (if idxQueued s < length (queuedJobs c)
               then s\<lparr>itQueued := Some (queuedJobs c ! idxQueued s)\<rparr> else s);
          queuePriority = (if idxQueued s < length (queuedJobs c)
                           then specPriority (mpiJob (queuedJobs c ! idxQueued s)) else -1)
      in if runPriority < queuePriority then (itQueued s, s\<lparr>idxQueued := idxQueued s + 1\<rparr>)
         else (itRunning s, s\<lparr>idxRunning := idxRunning s + 1\<rparr>))"

text \<open>
  The rest of the turn, for the item taken: the new replica count is written before
  it is compared with \<^verbatim>\<open>MinReplicas\<close>, and the budget is reduced by the new replica
  count.
\<close>

definition expandPicked ::
  "cluster \<Rightarrow> Item \<Rightarrow> rebalance_state
     \<Rightarrow> (outcome \<times> rebalance_state, rebalance_state) iteration" where
  "expandPicked cl it s =
     (case getRunningWorkerPods cl (mpiJob it) of
        Inl err \<Rightarrow> Break (Failed err, s)
      | Inr workerPodList \<Rightarrow>
          (let c = ctrl s;
               jobMaxReplicas = maxReplicas (mpiJob it);
               jobMinReplicas = minReplicas (mpiJob it);
               k = jobKey (mpiJob it)
           in if int (length workerPodList) < jobMaxReplicas then
                (let c = c\<lparr>latestReplicas := (latestReplicas c)
                             (k \<mapsto> min jobMaxReplicas
                                 (replicasOf (latestReplicas c) k + numFreeWorkers s))\<rparr>
                 in if replicasOf (latestReplicas c) k < jobMinReplicas
                    then Continue (s\<lparr>ctrl := c\<rparr>)
                    else Continue
                      (s\<lparr>numFreeWorkers := numFreeWorkers s - replicasOf (latestReplicas c) k,
                          ctrl := c\<lparr>oldExpandReplicas := (oldExpandReplicas c)
                                     (k \<mapsto> int (length workerPodList)),
                                   queue := queue c @ [k]\<rparr>\<rparr>))
              else Continue s))"

text \<open>One turn of the loop; dereferencing a \<^verbatim>\<open>nil\<close> item panics.\<close>

definition rebalanceStep ::
  "cluster \<Rightarrow> rebalance_state \<Rightarrow> (outcome \<times> rebalance_state, rebalance_state) iteration" where
  "rebalanceStep cl s =
     (if numFreeWorkers s = 0
         \<or> (idxRunning s = length (runningJobs (ctrl s))
             \<and> idxQueued s = length (queuedJobs (ctrl s)))
      then Break (Done, s)
      else
        (case pickNext s of
           (None, s) \<Rightarrow> Break (Panic, s)
         | (Some it, s) \<Rightarrow> expandPicked cl it s))"

partial_function (option) rebalanceLoop ::
  "cluster \<Rightarrow> rebalance_state \<Rightarrow> (outcome \<times> rebalance_state) option" where
  "rebalanceLoop cl s =
     (case rebalanceStep cl s of
        Break r \<Rightarrow> Some r
      | Continue s' \<Rightarrow> rebalanceLoop cl s')"

declare rebalanceLoop.simps [code]

text \<open>
  The branch of \<^verbatim>\<open>syncHandler\<close> for a finished job with a completion time. The maps
  are indexed with \<^verbatim>\<open>key\<close>, the queue entries are compared with \<^verbatim>\<open>getJobKey(mpiJob)\<close>.
  \<^verbatim>\<open>c.queuedJobs[idxQueued:]\<close> panics when the cursor ran past the end.
\<close>

definition syncFinished ::
  "cluster \<Rightarrow> MPIJobController \<Rightarrow> string \<Rightarrow> MPIJob \<Rightarrow> (outcome \<times> MPIJobController) option" where
  "syncFinished cl c key job =
     (if jobStatus c key = None then Some (Done, c)
      else
        (let c = c\<lparr>deferredAction := (deferredAction c)(key := None),
                   latestReplicas := (latestReplicas c)(key := None),
                   jobStatus := (jobStatus c)(key := None),
                   configMaps := (configMaps c)(key := None)\<rparr>
         in case removeFromRunningJobs (jobKey job) (runningJobs c) (length (runningJobs c)) 0 of
              None \<Rightarrow> Some (Panic, c)
            | Some remaining \<Rightarrow>
                (let c = c\<lparr>runningJobs := remaining\<rparr> in
                 if isCleanUpPods (cleanPodPolicy job) then
                   (case cleanUpWorkerPods cl c job of
                      (Some err, c) \<Rightarrow> Some (Failed err, c)
                    | (None, c) \<Rightarrow>
                        (let c = c\<lparr>freeSlots := freeSlots c + 1\<rparr> in
                         case rebalanceLoop cl
                                \<lparr>ctrl = c, numFreeWorkers = freeSlots c, idxRunning = 0,
                                 idxQueued = 0, itQueued = None, itRunning = None\<rparr> of
                           None \<Rightarrow> None
                         | Some (Done, s) \<Rightarrow>
                             (let c = ctrl s in
                              if idxQueued s > length (queuedJobs c) then Some (Panic, c)
                              else
                                (let c = c\<lparr>queuedJobs := drop (idxQueued s) (queuedJobs c)\<rparr> in
                                 case updateStatusHandler cl key of
                                   Some err \<Rightarrow> Some (Failed err, c)
                                 | None \<Rightarrow> Some (Done, c)))
                         | Some (out, s) \<Rightarrow> Some (out, ctrl s)))
                 else Some (Done, c))))"


section \<open>The reconcile pass: \<^verbatim>\<open>syncHandler\<close>\<close>

text \<open>
  The first sight of a job, or the promotion of a queued one (the two branches on
  \<^verbatim>\<open>c.jobStatus\<close> in \<^verbatim>\<open>syncHandler\<close>). \<open>Inl\<close> ends the pass, \<open>Inr\<close> goes on.
\<close>

definition admitJob ::
  "cluster \<Rightarrow> MPIJobController \<Rightarrow> MPIJob
     \<Rightarrow> ((outcome \<times> MPIJobController) + MPIJobController) option" where
  "admitJob cl c job =
     (case jobStatus c (jobKey job) of
        None \<Rightarrow>
          (case calculateWorkerReplicas cl c job of
             None \<Rightarrow> None
           | Some ((replicas, err), c) \<Rightarrow>
               (let c = c\<lparr>latestReplicas := (latestReplicas c)(jobKey job \<mapsto> replicas)\<rparr> in
                if err = Some JobQueued then Some (Inl (Done, enqueueJobInternal c job))
                else
                  (case err of
                     Some e \<Rightarrow> Some (Inl (Failed e, c))
                   | None \<Rightarrow>
                       Some (Inr (c\<lparr>jobStatus := (jobStatus c)(jobKey job \<mapsto> created),
                                    freeSlots := freeSlots c - 1\<rparr>)))))
      | Some status \<Rightarrow>
          if status = queued \<and> replicasOf (latestReplicas c) (jobKey job) > 0 then
            Some (Inr (c\<lparr>jobStatus := (jobStatus c)(jobKey job \<mapsto> created),
                         freeSlots := freeSlots c - 1\<rparr>))
          else Some (Inr c))"

text \<open>
  The part of \<^verbatim>\<open>syncHandler\<close> under \<^verbatim>\<open>if !isMPIJobSuspended(mpiJob)\<close>: pod group, expand
  detection, admission, worker pods, hostfile, and the deferred expand signal (sent
  once all workers are ready and the persisted hostfile is the committed one).
\<close>

definition reconcileWorkers ::
  "cluster \<Rightarrow> MPIJobController \<Rightarrow> string \<Rightarrow> MPIJob
     \<Rightarrow> ((outcome \<times> MPIJobController) + (MPIJobController \<times> Pod list)) option" where
  "reconcileWorkers cl c key job =
     (case getOrCreatePodGroups cl (jobKey job) of
        Some None \<Rightarrow> Some (Inl (Done, c))
      | Some (Some err) \<Rightarrow> Some (Inl (Failed err, c))
      | None \<Rightarrow>
          (let lastReplicas = (case latestReplicas c (jobKey job) of None \<Rightarrow> -1 | Some n \<Rightarrow> n) in
           case (if jobStatus c (jobKey job) = Some running then
                   (case podListerList cl job of
                      Inl err \<Rightarrow> Inl err
                    | Inr podFullList \<Rightarrow> Inr (int (length podFullList) < lastReplicas))
                 else Inr False) of
             Inl err \<Rightarrow> Some (Inl (Failed err, c))
           | Inr isExpand \<Rightarrow>
               (case admitJob cl c job of
                  None \<Rightarrow> None
                | Some (Inl r) \<Rightarrow> Some (Inl r)
                | Some (Inr c) \<Rightarrow>
                    (case getOrCreateWorker cl c job of
                       ((worker, Some err), c) \<Rightarrow>
                         if err = JobQueued then Some (Inl (Done, enqueueJobInternal c job))
                         else Some (Inl (Failed err, c))
                     | ((worker, None), c) \<Rightarrow>
                         (case getOrCreateConfigMap cl (jobKey job)
                                 (replicasOf (latestReplicas c) (jobKey job)) of
                            Inl err \<Rightarrow> Some (Inl (Failed err, c))
                          | Inr text \<Rightarrow>
                              (let c = c\<lparr>configMaps := (configMaps c)(jobKey job \<mapsto> text)\<rparr>;
                                   c = (if isExpand
                                        then c\<lparr>deferredAction := (deferredAction c)(key \<mapsto> expand)\<rparr>
                                        else c);
                                   ready = countReadyWorkerPods worker
                               in if ready = length worker
                                     \<and> getConfigMap cl (jobKey job)
                                         = Some (hostfileOf (configMaps c) (jobKey job))
                                     \<and> deferredAction c key = Some expand
                                  then
                                    (case sendRescaleSignal cl job
                                            (replicasOf (oldExpandReplicas c) (jobKey job))
                                            (int (length worker)) of
                                       Some err \<Rightarrow> Some (Inl (Failed err, c))
                                     | None \<Rightarrow>
                                         Some (Inr (c\<lparr>deferredAction :=
                                                        (deferredAction c)(jobKey job \<mapsto> noop)\<rparr>,
                                                    worker)))
                                  else Some (Inr (c, worker))))))))"

text \<open>
  The launcher: created once the workers are ready, the hostfile is persisted and the
  job is \<^verbatim>\<open>created\<close>; observed otherwise, and a running launcher pod sets the job
  \<^verbatim>\<open>running\<close> and rechecks the queue.
\<close>

definition reconcileLauncher ::
  "cluster \<Rightarrow> MPIJobController \<Rightarrow> MPIJob \<Rightarrow> Pod list \<Rightarrow> Launcher option
     \<Rightarrow> ((outcome \<times> MPIJobController) + (MPIJobController \<times> Launcher option)) option" where
  "reconcileLauncher cl c job worker launcher =
     (case launcher of
        None \<Rightarrow>
          if getConfigMap cl (jobKey job) = Some (hostfileOf (configMaps c) (jobKey job))
             \<and> jobStatus c (jobKey job) = Some created
             \<and> countReadyWorkerPods worker = length worker
          then
            (case jobsCreate cl (jobKey job) of
               Inl err \<Rightarrow> Some (Inl (Failed err, c))
             | Inr newLauncher \<Rightarrow>
                 Some (Inr (c\<lparr>jobStatus := (jobStatus c)(jobKey job \<mapsto> running),
                              runningJobs := Push (runningJobs c)
                                 \<lparr>mpiJob = job, priority = specPriority job\<rparr>\<rparr>,
                            Some newLauncher)))
          else Some (Inr (c, None))
      | Some l \<Rightarrow>
          (case jobPods l of
             Inl err \<Rightarrow> Some (Inl (Failed err, c))
           | Inr launcherPods \<Rightarrow>
               if launcherPods \<noteq> [] \<and> isPodRunning (hd launcherPods) then
                 (case checkJobQueue cl
                         (c\<lparr>jobStatus := (jobStatus c)(jobKey job \<mapsto> running)\<rparr>) 0 of
                    None \<Rightarrow> None
                  | Some c \<Rightarrow> Some (Inr (c, launcher)))
               else Some (Inr (c, launcher))))"

text \<open>The branch of \<^verbatim>\<open>syncHandler\<close> for a job that is not finished.\<close>

definition syncActive ::
  "cluster \<Rightarrow> MPIJobController \<Rightarrow> string \<Rightarrow> MPIJob \<Rightarrow> (outcome \<times> MPIJobController) option" where
  "syncActive cl c key job =
     (case getLauncherJob cl (jobKey job) of
        Inl err \<Rightarrow> Some (Failed err, c)
      | Inr launcher \<Rightarrow>
          (let done = (case launcher of None \<Rightarrow> False | Some l \<Rightarrow> launcherFinished l) in
           case (if done then Some (Inr (c, launcher))
                 else
                   (case getOrCreateService cl (jobKey job) of
                      Some err \<Rightarrow> Some (Inl (Failed err, c))
                    | None \<Rightarrow>
                        (case getOrCreateSSHAuthSecret cl (jobKey job) of
                           Some err \<Rightarrow> Some (Inl (Failed err, c))
                         | None \<Rightarrow>
                             (case (if suspend job then Some (Inr (c, []))
                                    else reconcileWorkers cl c key job) of
                                None \<Rightarrow> None
                              | Some (Inl r) \<Rightarrow> Some (Inl r)
                              | Some (Inr (c, worker)) \<Rightarrow>
                                  reconcileLauncher cl c job worker launcher)))) of
             None \<Rightarrow> None
           | Some (Inl r) \<Rightarrow> Some r
           | Some (Inr (c, launcher)) \<Rightarrow>
               (case (case launcher of
                        None \<Rightarrow> None
                      | Some l \<Rightarrow>
                          if suspend job \<noteq> launcherSuspended l
                          then jobsUpdate cl (jobKey job) else None) of
                  Some err \<Rightarrow> Some (Failed err, c)
                | None \<Rightarrow>
                    (case (if suspend job then cleanUpWorkerPods cl c job else (None, c)) of
                       (Some err, c) \<Rightarrow> Some (Failed err, c)
                     | (None, c) \<Rightarrow>
                         (case updateMPIJobStatus cl (jobKey job) of
                            Some err \<Rightarrow> Some (Failed err, c)
                          | None \<Rightarrow> Some (Done, c))))))"

text \<open>
  \<^verbatim>\<open>syncHandler\<close>. \<^verbatim>\<open>cache.SplitMetaNamespaceKey\<close> rejects a key with more than one
  slash.
\<close>

definition syncHandler ::
  "cluster \<Rightarrow> MPIJobController \<Rightarrow> string \<Rightarrow> (outcome \<times> MPIJobController) option" where
  "syncHandler cl c key =
     (if length (filter (\<lambda>ch. ch = CHR ''/'') key) > 1 then Some (Done, c)
      else
        (case mpiJobLister cl key of
           None \<Rightarrow> Some (Done, c)
         | Some (Inl err) \<Rightarrow> Some (Failed err, c)
         | Some (Inr job) \<Rightarrow>
             if deletionTimestamp job then Some (Done, c)
             else if validationErrors job then Some (Done, c)
             else if statusFinished job \<and> completionTime job then syncFinished cl c key job
             else syncActive cl c key job))"

text \<open>
  A sequence of reconcile passes, each with the cluster it sees and the key it is
  called for: the value of \<^verbatim>\<open>freeSlots\<close> before the first pass and after each one.
  The list ends early when a pass panics or does not return.
\<close>

fun freeSlotsAlong :: "MPIJobController \<Rightarrow> (cluster \<times> string) list \<Rightarrow> int list" where
  "freeSlotsAlong c [] = [freeSlots c]"
| "freeSlotsAlong c ((cl, key) # rest) =
     freeSlots c # (case syncHandler cl c key of
                      None \<Rightarrow> []
                    | Some (Panic, c') \<Rightarrow> []
                    | Some (out, c') \<Rightarrow> freeSlotsAlong c' rest)"


section \<open>Notions used in the properties\<close>

text \<open>
  A pass of \<^verbatim>\<open>syncHandler\<close> for \<open>key\<close> reaches the completion branch: the key is well
  formed, the lister returns \<open>job\<close>, which is not being deleted, is valid, is finished
  and has its completion time.
\<close>

definition completionObserved :: "cluster \<Rightarrow> string \<Rightarrow> MPIJob \<Rightarrow> bool" where
  "completionObserved cl key job =
     (length (filter (\<lambda>ch. ch = CHR ''/'') key) \<le> 1
      \<and> mpiJobLister cl key = Some (Inr job)
      \<and> \<not> deletionTimestamp job \<and> \<not> validationErrors job
      \<and> statusFinished job \<and> completionTime job)"

text \<open>
  The worker pod of an index is deleted by \<^verbatim>\<open>removeWorker\<close>: it is in the cache,
  controlled by the job, not kept by the clean-pod policy \<^verbatim>\<open>Running\<close>, and \<^verbatim>\<open>Delete\<close>
  does not fail.
\<close>

definition workerDeleted :: "cluster \<Rightarrow> MPIJob \<Rightarrow> nat \<Rightarrow> bool" where
  "workerDeleted cl job i =
     (case podListerGet cl job i of
        None \<Rightarrow> False
      | Some pod \<Rightarrow>
          controlledByJob pod
          \<and> \<not> (cleanPodPolicy job = CleanPodPolicyRunning \<and> \<not> isPodRunning pod \<and> \<not> isPodPending pod)
          \<and> podsDelete cl (jobKey job) i \<noteq> DeleteFailed)"

text \<open>
  What the expansion loop never writes, and what it keeps true of its two item
  pointers: each is \<^verbatim>\<open>nil\<close> or an entry of its queue.
\<close>

definition fixedPart ::
  "MPIJobController \<Rightarrow> (string \<rightharpoonup> jobState) \<times> (string \<rightharpoonup> string) \<times> (string \<rightharpoonup> action) \<times> int
     \<times> PriorityQueue \<times> PriorityQueue" where
  "fixedPart c =
     (jobStatus c, configMaps c, deferredAction c, freeSlots c, runningJobs c, queuedJobs c)"

definition pointersValid :: "rebalance_state \<Rightarrow> bool" where
  "pointersValid s =
     ((case itQueued s of None \<Rightarrow> True | Some it \<Rightarrow> it \<in> set (queuedJobs (ctrl s)))
      \<and> (case itRunning s of None \<Rightarrow> True | Some it \<Rightarrow> it \<in> set (runningJobs (ctrl s))))"


text \<open>
  For the termination of the expansion loop: both cursors are within their queues and
  no queue entry has a negative priority (so that \<^verbatim>\<open>-1\<close> marks an exhausted queue
  only); and the number of entries the cursors have not passed yet.
\<close>

definition cursorsInRange :: "rebalance_state \<Rightarrow> bool" where
  "cursorsInRange s =
     (idxRunning s \<le> length (runningJobs (ctrl s))
      \<and> idxQueued s \<le> length (queuedJobs (ctrl s))
      \<and> list_all (\<lambda>it. 0 \<le> specPriority (mpiJob it)) (runningJobs (ctrl s) @ queuedJobs (ctrl s)))"

definition entriesLeft :: "rebalance_state \<Rightarrow> nat" where
  "entriesLeft s =
     (length (runningJobs (ctrl s)) - idxRunning s) + (length (queuedJobs (ctrl s)) - idxQueued s)"


section \<open>Concrete inputs\<close>

text \<open>
  A job as the lister returns it while it runs, two queue entries with priorities 1
  and 2, and a CCS endpoint whose calls all succeed.
\<close>

definition newMPIJob :: "string \<Rightarrow> int \<Rightarrow> int \<Rightarrow> int \<Rightarrow> MPIJob" where
  "newMPIJob k p lo hi =
     \<lparr>jobKey = k, specPriority = p, minReplicas = lo, maxReplicas = hi,
      cleanPodPolicy = CleanPodPolicyAll, suspend = False, deletionTimestamp = False,
      validationErrors = False, statusFinished = False, completionTime = False\<rparr>"

definition item_p1 :: Item where
  "item_p1 = \<lparr>mpiJob = newMPIJob ''ml/p1'' 1 1 2, priority = 1\<rparr>"

definition item_p2 :: Item where
  "item_p2 = \<lparr>mpiJob = newMPIJob ''ml/p2'' 2 1 2, priority = 2\<rparr>"

definition ccs_ok :: ccs where
  "ccs_ok = \<lparr>CcsConnect = (\<lambda>host port. True), CcsSendRequest = (\<lambda>name msg. True),
             CcsRecvResponse = True\<rparr>"

text \<open>
  A cluster that holds nothing yet and where every call succeeds: a created pod comes
  back pending and not ready, the hostfile has one line per worker.
\<close>

definition hostfile :: "int \<Rightarrow> string" where
  "hostfile n = concat (replicate (nat n) ''host w; '')"

definition newPod :: "nat \<Rightarrow> Pod" where
  "newPod i = \<lparr>podIndex = i, phase = PodPending, podReady = False, controlledByJob = True,
               podIP = []\<rparr>"

definition readyPod :: "nat \<Rightarrow> Pod" where
  "readyPod i = \<lparr>podIndex = i, phase = PodRunning, podReady = True, controlledByJob = True,
                 podIP = ''10.0.0.7''\<rparr>"

definition readyWorkers :: "nat \<Rightarrow> Pod list" where
  "readyWorkers n = map readyPod [0..<n]"

definition launcherRunning :: Launcher where
  "launcherRunning =
     \<lparr>launcherFinished = False, launcherSuspended = False, jobPods = Inr [readyPod 0]\<rparr>"

definition emptyCluster :: cluster where
  "emptyCluster =
     \<lparr>mpiJobLister = (\<lambda>k. None), podCache = (\<lambda>k. []), podListError = (\<lambda>k. None),
      podsCreate = (\<lambda>k i. Inr (newPod i)), podsDelete = (\<lambda>k i. Deleted),
      getLauncherJob = (\<lambda>k. Inr None),
      jobsCreate = (\<lambda>k. Inr \<lparr>launcherFinished = False, launcherSuspended = False,
                               jobPods = Inr []\<rparr>),
      jobsUpdate = (\<lambda>k. None), getOrCreateService = (\<lambda>k. None),
      getOrCreateSSHAuthSecret = (\<lambda>k. None), getOrCreatePodGroups = (\<lambda>k. None),
      deletePodGroups = (\<lambda>k. None), getOrCreateConfigMap = (\<lambda>k n. Inr (hostfile n)),
      getConfigMap = (\<lambda>k. None), updateStatusHandler = (\<lambda>k. None),
      updateMPIJobStatus = (\<lambda>k. None), execStarted = True, ccsLib = ccs_ok\<rparr>"


text \<open>
  A controller in the middle of its life: one running job \<open>ml/r\<close> (priority 0,
  between 1 and 8 workers) holds eight workers and its launcher, one slot is free.
  Three jobs that may arrive: \<open>newcomer\<close> (priority 5), \<open>earlyBird\<close> (priority -1) and
  \<open>peer\<close> (priority 0, that of the running job) need two workers each. In \<open>busyCluster\<close> the eight workers run and the launcher
  answers; in \<open>deafCluster\<close> the launcher's CCS endpoint refuses the connection.
  In \<open>requeuedController\<close> the running job has been marked \<^verbatim>\<open>queued\<close> again, as
  \<^verbatim>\<open>enqueueJobInternal\<close> does when \<^verbatim>\<open>getOrCreateWorker\<close> finds too few slots.
\<close>

definition victim :: MPIJob where
  "victim = newMPIJob ''ml/r'' 0 1 8"

definition newcomer :: MPIJob where
  "newcomer = newMPIJob ''ml/j'' 5 2 2"

definition busyController :: MPIJobController where
  "busyController = NewMPIJobController
     \<lparr>latestReplicas := [''ml/r'' \<mapsto> 8], jobStatus := [''ml/r'' \<mapsto> running],
      runningJobs := [\<lparr>mpiJob = victim, priority = 0\<rparr>], freeSlots := 1\<rparr>"

definition busyCluster :: cluster where
  "busyCluster = emptyCluster
     \<lparr>podCache := (\<lambda>k. if k = ''ml/r'' then readyWorkers 8 else []),
      getLauncherJob := (\<lambda>k. if k = ''ml/r'' then Inr (Some launcherRunning) else Inr None)\<rparr>"

definition deafCluster :: cluster where
  "deafCluster = busyCluster\<lparr>ccsLib := ccs_ok\<lparr>CcsConnect := (\<lambda>host port. False)\<rparr>\<rparr>"

definition requeuedController :: MPIJobController where
  "requeuedController = busyController\<lparr>jobStatus := [''ml/r'' \<mapsto> queued]\<rparr>"




text \<open>
  The completion of a job: \<open>finishingController\<close> runs the job \<open>a\<close> alone, with four
  workers and its launcher, five slots are free. In \<open>finishedCluster\<close> the job is
  finished with its completion time, under the clean-pod policy \<^verbatim>\<open>All\<close>; in
  \<open>keepingCluster\<close> the same under the policy \<^verbatim>\<open>None\<close>; in \<open>stuckCluster\<close> the
  deletion of the pod group fails. In \<open>requeuedFinishing\<close> the job has also been put
  back into \<^verbatim>\<open>queuedJobs\<close> by \<^verbatim>\<open>enqueueJobInternal\<close> while it ran, and in
  \<open>halfCluster\<close> only two of its workers exist.
\<close>

definition jobA :: MPIJob where
  "jobA = newMPIJob ''ml/a'' 0 1 4"

definition finishingController :: MPIJobController where
  "finishingController = NewMPIJobController
     \<lparr>latestReplicas := [''ml/a'' \<mapsto> 4], configMaps := [''ml/a'' \<mapsto> hostfile 4],
      jobStatus := [''ml/a'' \<mapsto> running],
      runningJobs := [\<lparr>mpiJob = jobA, priority = 0\<rparr>], freeSlots := 5\<rparr>"

definition finishedCluster :: cluster where
  "finishedCluster = emptyCluster
     \<lparr>mpiJobLister := [''ml/a'' \<mapsto> Inr (jobA\<lparr>statusFinished := True, completionTime := True\<rparr>)],
      podCache := (\<lambda>k. if k = ''ml/a'' then readyWorkers 4 else []),
      getLauncherJob := (\<lambda>k. if k = ''ml/a''
                             then Inr (Some (launcherRunning\<lparr>launcherFinished := True\<rparr>))
                             else Inr None)\<rparr>"

definition keepingCluster :: cluster where
  "keepingCluster = finishedCluster
     \<lparr>mpiJobLister := [''ml/a'' \<mapsto> Inr (jobA\<lparr>statusFinished := True, completionTime := True,
                                                     cleanPodPolicy := CleanPodPolicyNone\<rparr>)]\<rparr>"


definition requeuedFinishing :: MPIJobController where
  "requeuedFinishing = finishingController
     \<lparr>queuedJobs := [\<lparr>mpiJob = jobA, priority = 0\<rparr>], jobStatus := [''ml/a'' \<mapsto> queued]\<rparr>"

definition halfCluster :: cluster where
  "halfCluster = finishedCluster
     \<lparr>podCache := (\<lambda>k. if k = ''ml/a'' then readyWorkers 2 else [])\<rparr>"

text \<open>
  An expansion step: the running job \<open>b\<close> (between 1 and 8 workers) has five workers,
  five slots have just been freed.
\<close>

definition jobB :: MPIJob where
  "jobB = newMPIJob ''ml/b'' 1 1 8"

definition expansionState :: rebalance_state where
  "expansionState =
     \<lparr>ctrl = NewMPIJobController
        \<lparr>latestReplicas := [''ml/b'' \<mapsto> 5], jobStatus := [''ml/b'' \<mapsto> running],
         runningJobs := [\<lparr>mpiJob = jobB, priority = 1\<rparr>], freeSlots := 5\<rparr>,
      numFreeWorkers = 5, idxRunning = 0, idxQueued = 0, itQueued = None, itRunning = None\<rparr>"

definition expansionCluster :: cluster where
  "expansionCluster = emptyCluster
     \<lparr>podCache := (\<lambda>k. if k = ''ml/b'' then readyWorkers 5 else [])\<rparr>"

text \<open>
  Six passes from the initial state. Job \<open>x\<close> (nine workers) is seen first and takes
  nine slots and one for its launcher. Job \<open>y\<close> (two to four workers) arrives and is
  queued. Job \<open>x\<close> completes: its ten slots come back and the expansion loop grants
  \<open>y\<close> four workers and puts its key on the work queue. Before that key is worked on,
  job \<open>z\<close> (nine workers) arrives and is admitted. Then \<open>y\<close> is reconciled.
  \<^item> \<open>stage1\<close>: \<open>x\<close> exists, nothing else does.
  \<^item> \<open>stage2\<close>: the nine workers of \<open>x\<close> are ready, its hostfile is persisted.
  \<^item> \<open>stage3\<close>: the launcher of \<open>x\<close> runs; \<open>y\<close> exists.
  \<^item> \<open>stage4\<close>: \<open>x\<close> is finished and has its completion time.
  \<^item> \<open>stage5\<close>: the pods of \<open>x\<close> are gone; \<open>z\<close> exists.
  \<^item> \<open>stage6\<close>: the nine workers of \<open>z\<close> are pending.
\<close>

definition jobX :: MPIJob where
  "jobX = newMPIJob ''ml/x'' 0 9 9"

definition jobY :: MPIJob where
  "jobY = newMPIJob ''ml/y'' 1 2 4"

definition jobZ :: MPIJob where
  "jobZ = newMPIJob ''ml/z'' 2 9 9"

definition stage1 :: cluster where
  "stage1 = emptyCluster\<lparr>mpiJobLister := [''ml/x'' \<mapsto> Inr jobX]\<rparr>"

definition stage2 :: cluster where
  "stage2 = stage1
     \<lparr>podCache := (\<lambda>k. if k = ''ml/x'' then readyWorkers 9 else []),
      getConfigMap := (\<lambda>k. if k = ''ml/x'' then Some (hostfile 9) else None)\<rparr>"

definition stage3 :: cluster where
  "stage3 = stage2
     \<lparr>mpiJobLister := [''ml/x'' \<mapsto> Inr jobX, ''ml/y'' \<mapsto> Inr jobY],
      getLauncherJob := (\<lambda>k. if k = ''ml/x'' then Inr (Some launcherRunning) else Inr None)\<rparr>"

definition stage4 :: cluster where
  "stage4 = stage3
     \<lparr>mpiJobLister := [''ml/x'' \<mapsto> Inr (jobX\<lparr>statusFinished := True, completionTime := True\<rparr>),
                       ''ml/y'' \<mapsto> Inr jobY],
      getLauncherJob := (\<lambda>k. if k = ''ml/x''
                             then Inr (Some (launcherRunning\<lparr>launcherFinished := True\<rparr>))
                             else Inr None)\<rparr>"

definition stage5 :: cluster where
  "stage5 = stage4
     \<lparr>mpiJobLister := [''ml/x'' \<mapsto> Inr (jobX\<lparr>statusFinished := True, completionTime := True\<rparr>),
                       ''ml/y'' \<mapsto> Inr jobY, ''ml/z'' \<mapsto> Inr jobZ],
      podCache := (\<lambda>k. [])\<rparr>"

definition stage6 :: cluster where
  "stage6 = stage5
     \<lparr>podCache := (\<lambda>k. if k = ''ml/z'' then map newPod [0..<9] else [])\<rparr>"

definition passes :: "(cluster \<times> string) list" where
  "passes = [(stage1, ''ml/x''), (stage2, ''ml/x''), (stage3, ''ml/y''),
             (stage4, ''ml/x''), (stage5, ''ml/z''), (stage6, ''ml/y'')]"


section \<open>Properties of the priority queue\<close>

lemma Push_sorted: "sorted (map priority (Push pq item))"
  by (simp add: Push_def)

lemma Pop_last: "pq \<noteq> [] \<Longrightarrow> Pop pq = Some (last pq, butlast pq)"
  by (simp add: Pop_def)

lemma sorted_last_max:
  "sorted (map priority pq) \<Longrightarrow> x \<in> set pq \<Longrightarrow> priority x \<le> priority (last pq)"
proof (cases pq rule: rev_cases)
  case Nil
  assume "x \<in> set pq"
  with Nil show ?thesis by simp
next
  case (snoc ys y)
  assume "sorted (map priority pq)" and "x \<in> set pq"
  with snoc show ?thesis by (auto simp: sorted_append)
qed

text \<open>
  C3, as the specification states it: \<^verbatim>\<open>Pop\<close> returns the entry with the lowest
  priority value. It does not: after pushing priorities 2 and 1, \<^verbatim>\<open>Pop\<close> hands out
  the entry with priority 2 and leaves the one with priority 1 in the queue.
\<close>

theorem Pop_lowest_counterexample:
  "Pop (Push (Push [] item_p2) item_p1) = Some (item_p2, [item_p1])
   \<and> priority item_p1 < priority item_p2"
  by (simp add: Pop_def Push_def item_p1_def item_p2_def newMPIJob_def)

text \<open>
  C3, amended: on a non-empty queue in ascending priority order (the order every
  \<^verbatim>\<open>Push\<close> establishes), \<^verbatim>\<open>Pop\<close> removes and returns the last entry, whose priority
  value is the highest of the queue.
\<close>

theorem Pop_highest:
  assumes "sorted (map priority pq)" and "pq \<noteq> []"
  shows "\<exists>it rest. Pop pq = Some (it, rest) \<and> pq = rest @ [it]
           \<and> (\<forall>x \<in> set pq. priority x \<le> priority it)"
proof -
  from assms(2) have "Pop pq = Some (last pq, butlast pq)" by (rule Pop_last)
  moreover from assms(2) have "pq = butlast pq @ [last pq]" by simp
  moreover from assms(1) have "\<forall>x \<in> set pq. priority x \<le> priority (last pq)"
    by (blast intro: sorted_last_max)
  ultimately show ?thesis by blast
qed

theorem Pop_highest_witness:
  "sorted (map priority (Push (Push [] item_p2) item_p1))
   \<and> Push (Push [] item_p2) item_p1 \<noteq> []
   \<and> (\<exists>it rest. Pop (Push (Push [] item_p2) item_p1) = Some (it, rest)
        \<and> Push (Push [] item_p2) item_p1 = rest @ [it]
        \<and> (\<forall>x \<in> set (Push (Push [] item_p2) item_p1). priority x \<le> priority it))"
proof -
  have s: "sorted (map priority (Push (Push [] item_p2) item_p1))" by (rule Push_sorted)
  have n: "Push (Push [] item_p2) item_p1 \<noteq> []"
    by (simp add: Push_def item_p1_def item_p2_def newMPIJob_def)
  from s n Pop_highest [OF s n] show ?thesis by blast
qed


section \<open>Properties of the rescale client\<close>

lemma fill_bitmap_expand: "fill_bitmap True old new = replicate (nat old) 1"
  by (simp add: fill_bitmap_def map_replicate_const)

lemma fill_bitmap_shrink:
  assumes "new < old"
  shows "fill_bitmap False old new = replicate (nat new) 1 @ replicate (nat old - nat new) 0"
proof (rule nth_equalityI)
  show "length (fill_bitmap False old new) =
        length (replicate (nat new) 1 @ replicate (nat old - nat new) (0::byte))"
    using assms by (simp add: fill_bitmap_def)
next
  fix i assume "i < length (fill_bitmap False old new)"
  then have i: "i < nat old" by (simp add: fill_bitmap_def)
  show "fill_bitmap False old new ! i =
        (replicate (nat new) 1 @ replicate (nat old - nat new) (0::byte)) ! i"
  proof (cases "int i < new")
    case True
    then have "i < nat new" by simp
    then show ?thesis using i True by (simp add: fill_bitmap_def nth_append)
  next
    case False
    then have "\<not> i < nat new" by simp
    then show ?thesis using i False by (simp add: fill_bitmap_def nth_append)
  qed
qed

lemma length_fill_bitmap: "length (fill_bitmap m old new) = nat old"
  by (simp add: fill_bitmap_def)

lemma le32_split:
  "(n::int) mod 256 + 256 * ((n div 256) mod 256) + 65536 * ((n div 65536) mod 256)
     + 16777216 * ((n div 16777216) mod 256) = n mod 4294967296"
proof -
  have d2: "n div 65536 = n div 256 div 256"
    using zdiv_zmult2_eq [of 256 n 256] by simp
  have d3: "n div 16777216 = n div 256 div 256 div 256"
    using zdiv_zmult2_eq [of 256 n 65536] d2 by simp
  have m1: "n mod 4294967296 = 256 * (n div 256 mod 16777216) + n mod 256"
    using zmod_zmult2_eq [of 16777216 n 256] by simp
  have m2: "n div 256 mod 16777216 = 256 * (n div 256 div 256 mod 65536) + n div 256 mod 256"
    using zmod_zmult2_eq [of 65536 "n div 256" 256] by simp
  have m3: "n div 256 div 256 mod 65536 =
            256 * (n div 256 div 256 div 256 mod 256) + n div 256 div 256 mod 256"
    using zmod_zmult2_eq [of 256 "n div 256 div 256" 256] by simp
  show ?thesis
    unfolding d2 d3 m1 m2 m3 by simp
qed

lemma uint_byte: "uint (word_of_int n :: byte) = n mod 256"
  by (simp add: uint_word_of_int)

lemma int_bytes_little_endian:
  "\<exists>b0 b1 b2 b3. int_bytes n = [b0, b1, b2, b3]
     \<and> uint b0 + 256 * uint b1 + 65536 * uint b2 + 16777216 * uint b3 = n mod 4294967296"
proof -
  have "uint (word_of_int n :: byte) + 256 * uint (word_of_int (n div 256) :: byte)
          + 65536 * uint (word_of_int (n div 65536) :: byte)
          + 16777216 * uint (word_of_int (n div 16777216) :: byte) = n mod 4294967296"
    unfolding uint_byte by (rule le32_split)
  then show ?thesis unfolding int_bytes_def by blast
qed

lemma cmdLen_in_range:
  "0 \<le> old \<Longrightarrow> old \<le> 2147483642 \<Longrightarrow> cmdLen old = old + 5"
  by (simp add: cmdLen_def Let_def)

lemma build_command_in_range:
  assumes "0 \<le> old" and "old \<le> 2147483642"
  shows "build_command m old new = Some (fill_bitmap m old new @ int_bytes new @ [0])"
proof -
  have "length (fill_bitmap m old new @ int_bytes new @ [0]) = nat (old + 5)"
    using assms(1) by (simp add: length_fill_bitmap int_bytes_def)
  with assms show ?thesis
    by (simp add: build_command_def cmdLen_in_range)
qed

lemma rescale_client_sends:
  assumes "0 \<le> old" and "old \<le> 2147483642" and "new \<noteq> old" and "CcsConnect lib host port"
  shows "\<exists>run. rescale_client lib 5 host port old new = Some run
           \<and> request run
               = Some (''set_bitmap'', fill_bitmap (old < new) old new @ int_bytes new @ [0])"
  using assms by (auto simp: rescale_client_def build_command_in_range)

text \<open>
  C9, as the specification states it: for every \<open>oldProcs > 0\<close> and
  \<open>newProcs \<noteq> oldProcs\<close> the client builds a message of \<open>oldProcs + 5\<close> bytes. It does
  not when the launcher refuses the connection: the client prints \<^verbatim>\<open>0\<close> and exits
  before the buffer is allocated. Nor does it for \<open>oldProcs = 2147483647\<close>: \<^verbatim>\<open>cmdLen\<close>
  wraps to \<open>-2147483644\<close>, which is what \<^verbatim>\<open>malloc\<close> is called with, and no message of
  \<open>2147483652\<close> bytes is built.
\<close>

theorem rescale_client_no_message_counterexample:
  "map_option request
     (rescale_client (ccs_ok\<lparr>CcsConnect := (\<lambda>host port. False)\<rparr>) 5 ''10.0.0.7'' 1234 3 2)
     = Some None
   \<and> cmdLen 2147483647 = -2147483644
   \<and> rescale_client ccs_ok 5 ''10.0.0.7'' 1234 2147483647 2 = None"
  by (simp add: rescale_client_def build_command_def cmdLen_def ccs_ok_def)

text \<open>
  C9, amended: for \<open>0 < oldProcs \<le> 2147483642\<close> (so that \<open>oldProcs + 5\<close> is a C
  \<^verbatim>\<open>int\<close>) and \<open>newProcs \<noteq> oldProcs\<close>, once \<^verbatim>\<open>CcsConnect\<close> has succeeded, the client
  hands \<^verbatim>\<open>CcsSendRequest\<close> a \<^verbatim>\<open>set_bitmap\<close> message of \<open>oldProcs + 5\<close> bytes: \<open>oldProcs\<close>
  bitmap bytes, all 1 on expansion, the first \<open>newProcs\<close> of them 1 and the others 0
  on shrink; then the four bytes of \<open>newProcs\<close>, least significant first (read back
  as a base-256 number they give \<open>newProcs\<close> modulo \<open>2^32\<close>, its two's complement);
  then one NUL byte.
\<close>

theorem rescale_client_message:
  assumes "0 < oldProcs" and "oldProcs \<le> 2147483642" and "newProcs \<noteq> oldProcs"
    and "CcsConnect lib host port"
  shows "\<exists>run msg b0 b1 b2 b3.
           rescale_client lib 5 host port oldProcs newProcs = Some run
         \<and> request run = Some (''set_bitmap'', msg)
         \<and> int (length msg) = oldProcs + 5
         \<and> take (nat oldProcs) msg =
             (if oldProcs < newProcs then replicate (nat oldProcs) 1
              else replicate (nat newProcs) 1 @ replicate (nat oldProcs - nat newProcs) 0)
         \<and> drop (nat oldProcs) msg = [b0, b1, b2, b3, 0]
         \<and> uint b0 + 256 * uint b1 + 65536 * uint b2 + 16777216 * uint b3
             = newProcs mod 4294967296"
proof -
  let ?bm = "fill_bitmap (oldProcs < newProcs) oldProcs newProcs"
  let ?msg = "?bm @ int_bytes newProcs @ [0]"
  from assms obtain run where run:
    "rescale_client lib 5 host port oldProcs newProcs = Some run"
    "request run = Some (''set_bitmap'', ?msg)"
    using rescale_client_sends [of oldProcs newProcs lib host port] by auto
  obtain b0 b1 b2 b3 where b: "int_bytes newProcs = [b0, b1, b2, b3]"
    "uint b0 + 256 * uint b1 + 65536 * uint b2 + 16777216 * uint b3 = newProcs mod 4294967296"
    using int_bytes_little_endian [of newProcs] by blast
  have msg: "?msg = ?bm @ [b0, b1, b2, b3, 0]"
    by (simp add: b(1))
  have len: "length ?bm = nat oldProcs" by (rule length_fill_bitmap)
  have l: "int (length ?msg) = oldProcs + 5"
    using assms(1) by (simp add: msg len)
  have t: "take (nat oldProcs) ?msg = ?bm" by (simp add: msg len)
  have d: "drop (nat oldProcs) ?msg = [b0, b1, b2, b3, 0]" by (simp add: msg len)
  have bm: "?bm = (if oldProcs < newProcs then replicate (nat oldProcs) 1
              else replicate (nat newProcs) 1 @ replicate (nat oldProcs - nat newProcs) 0)"
  proof (cases "oldProcs < newProcs")
    case True
    then show ?thesis by (simp add: fill_bitmap_expand)
  next
    case False
    with assms(3) have "newProcs < oldProcs" by simp
    with False show ?thesis by (simp add: fill_bitmap_shrink)
  qed
  from run l t d bm b(2) show ?thesis by metis
qed

theorem rescale_client_message_witness:
  "(0::int) < 3 \<and> (3::int) \<le> 2147483642 \<and> (2::int) \<noteq> 3
   \<and> CcsConnect ccs_ok ''10.0.0.7'' 1234
   \<and> (\<exists>run msg b0 b1 b2 b3.
           rescale_client ccs_ok 5 ''10.0.0.7'' 1234 3 2 = Some run
         \<and> request run = Some (''set_bitmap'', msg)
         \<and> int (length msg) = 3 + 5
         \<and> take (nat 3) msg =
             (if (3::int) < 2 then replicate (nat 3) 1
              else replicate (nat 2) 1 @ replicate (nat 3 - nat 2) 0)
         \<and> drop (nat 3) msg = [b0, b1, b2, b3, 0]
         \<and> uint b0 + 256 * uint b1 + 65536 * uint b2 + 16777216 * uint b3
             = 2 mod 4294967296)"
proof -
  have c: "CcsConnect ccs_ok ''10.0.0.7'' 1234" by (simp add: ccs_ok_def)
  have p: "(0::int) < 3" and r: "(3::int) \<le> 2147483642" and q: "(2::int) \<noteq> 3" by simp_all
  from rescale_client_message [OF p r q c] c show ?thesis by simp
qed

text \<open>
  C4, as the specification states it: a rescale request with \<open>newProcs = oldProcs\<close>
  returns ok to the controller. It does not: the client prints \<^verbatim>\<open>0\<close>, and
  \<^verbatim>\<open>signalRescale\<close> turns the output \<^verbatim>\<open>0\<close> into an error.
\<close>

theorem signalRescale_equal_counterexample:
  "signalRescale True ccs_ok ''10.0.0.7'' 1234 3 3 = Some (RescaleFailed ''0'')"
  by (simp add: signalRescale_def rescale_client_def)

text \<open>
  C4, amended: with \<open>newProcs = oldProcs\<close> the client opens no connection and sends
  nothing, prints \<^verbatim>\<open>0\<close> and exits with code 0; \<^verbatim>\<open>signalRescale\<close> reports an error
  to its caller, whatever the launcher would have answered.
\<close>

theorem signalRescale_equal_is_error:
  "rescale_client lib 5 host port n n = Some \<lparr>printed = ''0'', exit_code = 0, request = None\<rparr>
   \<and> signalRescale True lib host port n n = Some (RescaleFailed ''0'')
   \<and> signalRescale started lib host port n n \<noteq> None"
  by (simp add: signalRescale_def rescale_client_def)


section \<open>Properties of admission\<close>


lemma commitShrink_Continue:
  "commitShrinkStep cl job c n i = Continue (c', n', i')
   \<Longrightarrow> commitShrink cl job c n i = commitShrink cl job c' n' i'"
  by (subst commitShrink.simps) simp

lemma commitShrink_stuck:
  assumes stuck: "commitShrinkStep cl job c n i = Continue (c, n, i)"
  shows "commitShrink cl job c n i = None"
proof (cases "commitShrink cl job c n i")
  case None
  then show ?thesis .
next
  case (Some r)
  let ?P = "\<lambda>cl' job' c' n' i' (r' :: error option \<times> MPIJobController \<times> int).
              \<not> (cl' = cl \<and> job' = job \<and> c' = c \<and> n' = n \<and> i' = i)"
  have "?P cl job c n i r"
  proof (rule commitShrink.raw_induct [where P = ?P, OF _ Some])
    fix f cl' job' c' n' i' r'
    assume IH: "\<And>cl' job' c' n' i' r'. f cl' job' c' n' i' = Some r' \<Longrightarrow> ?P cl' job' c' n' i' r'"
      and body: "(case commitShrinkStep cl' job' c' n' i' of Break r \<Rightarrow> Some r
                  | Continue (c'', n'', i'') \<Rightarrow> f cl' job' c'' n'' i'') = Some r'"
    show "?P cl' job' c' n' i' r'"
    proof
      assume eq: "cl' = cl \<and> job' = job \<and> c' = c \<and> n' = n \<and> i' = i"
      with body stuck have "f cl job c n i = Some r'" by simp
      with IH show False by blast
    qed
  qed
  then show ?thesis by simp
qed










text \<open>
  C5: in the commit pass, when the entry at the cursor is a victim (its priority does
  not stop the scan, it is \<^verbatim>\<open>running\<close>, it has more running workers than its minimum)
  and the rescale signal to it fails, the turn changes nothing in the controller, so
  neither \<^verbatim>\<open>latestReplicas\<close> nor \<^verbatim>\<open>freeSlots\<close>, and nothing in the count still to
  free; the loop goes on with the entry before it.
\<close>

theorem failed_rescale_changes_nothing:
  assumes "numWorkersToFree \<noteq> 0" and "0 \<le> index"
    and "R = mpiJob (runningJobs c ! nat index)"
    and "\<not> specPriority R > specPriority job"
    and "jobStatus c (jobKey R) = Some running"
    and "getRunningWorkerPods cl R = Inr workerPodList"
    and "int (length workerPodList) > minReplicas R"
    and "sendRescaleSignal cl R (int (length workerPodList))
           (max (minReplicas R) (int (length workerPodList) - numWorkersToFree)) = Some err"
  shows "commitShrinkStep cl job c numWorkersToFree index
           = Continue (c, numWorkersToFree, index - 1)
       \<and> commitShrink cl job c numWorkersToFree index
           = commitShrink cl job c numWorkersToFree (index - 1)"
proof -
  from assms have "commitShrinkStep cl job c numWorkersToFree index
                     = Continue (c, numWorkersToFree, index - 1)"
    by (simp add: commitShrinkStep_def Let_def)
  then show ?thesis by (simp add: commitShrink_Continue)
qed

theorem failed_rescale_changes_nothing_witness:
  "(2::int) \<noteq> 0 \<and> (0::int) \<le> 0
   \<and> victim = mpiJob (runningJobs busyController ! nat 0)
   \<and> \<not> specPriority victim > specPriority newcomer
   \<and> jobStatus busyController (jobKey victim) = Some running
   \<and> getRunningWorkerPods deafCluster victim = Inr (readyWorkers 8)
   \<and> int (length (readyWorkers 8)) > minReplicas victim
   \<and> sendRescaleSignal deafCluster victim (int (length (readyWorkers 8)))
        (max (minReplicas victim) (int (length (readyWorkers 8)) - 2))
        = Some (RescaleFailed ''0'')
   \<and> commitShrinkStep deafCluster newcomer busyController 2 0
        = Continue (busyController, 2, 0 - 1)
   \<and> commitShrink deafCluster newcomer busyController 2 0
        = commitShrink deafCluster newcomer busyController 2 (0 - 1)"
proof -
  have h1: "(2::int) \<noteq> 0" and h2: "(0::int) \<le> 0" by simp_all
  have h3: "victim = mpiJob (runningJobs busyController ! nat 0)"
    by (simp add: busyController_def)
  have h4: "\<not> specPriority victim > specPriority newcomer"
    by (simp add: victim_def newcomer_def newMPIJob_def)
  have h5: "jobStatus busyController (jobKey victim) = Some running"
    by (simp add: busyController_def victim_def newMPIJob_def)
  have h6: "getRunningWorkerPods deafCluster victim = Inr (readyWorkers 8)"
    by code_simp
  have h7: "int (length (readyWorkers 8)) > minReplicas victim"
    by (simp add: readyWorkers_def victim_def newMPIJob_def)
  have h8: "sendRescaleSignal deafCluster victim (int (length (readyWorkers 8)))
        (max (minReplicas victim) (int (length (readyWorkers 8)) - 2))
        = Some (RescaleFailed ''0'')"
    by code_simp
  from failed_rescale_changes_nothing [OF h1 h2 h3 h4 h5 h6 h7 h8] h1 h2 h3 h4 h5 h6 h7 h8
  show ?thesis by simp
qed

lemma commitShrink_not_running:
  assumes "n \<noteq> 0" and "0 \<le> i"
    and "\<not> specPriority (mpiJob (runningJobs c ! nat i)) > specPriority job"
    and "jobStatus c (jobKey (mpiJob (runningJobs c ! nat i))) \<noteq> Some running"
  shows "commitShrink cl job c n i = None"
proof (rule commitShrink_stuck)
  from assms show "commitShrinkStep cl job c n i = Continue (c, n, i)"
    by (simp add: commitShrinkStep_def Let_def)
qed

text \<open>
  C10: \<^verbatim>\<open>calculateWorkerReplicas\<close> should return for every controller state. It does
  not for \<open>requeuedController\<close>: the dry run finds the two workers, and the commit pass
  meets an entry of \<^verbatim>\<open>runningJobs\<close> whose status is not \<^verbatim>\<open>running\<close> and goes round
  with the same index for ever.
\<close>

theorem calculateWorkerReplicas_never_returns:
  "calculateWorkerReplicas busyCluster requeuedController newcomer = None"
proof -
  have dry: "dryRunShrink busyCluster requeuedController newcomer 2 0 = Inr 0"
    by code_simp
  have "commitShrink busyCluster newcomer requeuedController 2 0 = None"
    by (rule commitShrink_not_running)
       (simp_all add: requeuedController_def busyController_def victim_def newcomer_def
                      newMPIJob_def)
  with dry show ?thesis
    by (simp add: calculateWorkerReplicas_def requeuedController_def busyController_def
                  newcomer_def newMPIJob_def NewMPIJobController_def)
qed


section \<open>Properties of completion\<close>

lemma rebalanceLoop_invariant:
  assumes run: "rebalanceLoop cl s = Some r"
    and init: "I s"
    and step: "\<And>s s'. I s \<Longrightarrow> rebalanceStep cl s = Continue s' \<Longrightarrow> I s'"
    and exit: "\<And>s r. I s \<Longrightarrow> rebalanceStep cl s = Break r \<Longrightarrow> Q r"
  shows "Q r"
proof -
  let ?P = "\<lambda>cl' s r. cl' = cl \<longrightarrow> I s \<longrightarrow> Q r"
  have "?P cl s r"
  proof (rule rebalanceLoop.raw_induct [where P = ?P, OF _ run])
    fix f cl' s r
    assume IH: "\<And>cl' s r. f cl' s = Some r \<Longrightarrow> ?P cl' s r"
      and body: "(case rebalanceStep cl' s of Break r \<Rightarrow> Some r
                  | Continue s' \<Rightarrow> f cl' s') = Some r"
    show "?P cl' s r"
    proof (intro impI)
      assume cl: "cl' = cl" and inv: "I s"
      show "Q r"
      proof (cases "rebalanceStep cl s")
        case (Break r')
        with body cl have "r' = r" by simp
        with Break inv exit show ?thesis by blast
      next
        case (Continue s')
        with body cl have "f cl s' = Some r" by simp
        moreover from step [OF inv Continue] have "I s'" .
        ultimately show ?thesis using IH by blast
      qed
    qed
  qed
  with init show ?thesis by simp
qed

lemma removeWorker_effect:
  "snd (removeWorker cl c job i)
     = c\<lparr>freeSlots := freeSlots c + (if workerDeleted cl job i then 1 else 0)\<rparr>"
  by (simp add: removeWorker_def workerDeleted_def split: option.splits)

lemma foldl_removeWorker:
  "foldl (\<lambda>c i. snd (removeWorker cl c job i)) c is
     = c\<lparr>freeSlots := freeSlots c + int (length (filter (workerDeleted cl job) is))\<rparr>"
proof (induction "is" arbitrary: c)
  case Nil
  show ?case by simp
next
  case (Cons i "is")
  let ?f = "\<lambda>c i. snd (removeWorker cl c job i)"
  have "foldl ?f c (i # is) = foldl ?f (snd (removeWorker cl c job i)) is" by simp
  also have "\<dots> = (snd (removeWorker cl c job i))
                 \<lparr>freeSlots := freeSlots (snd (removeWorker cl c job i))
                    + int (length (filter (workerDeleted cl job) is))\<rparr>"
    by (rule Cons.IH)
  also have "\<dots> = c\<lparr>freeSlots := freeSlots c
                    + int (length (filter (workerDeleted cl job) (i # is)))\<rparr>"
    by (simp add: removeWorker_effect)
  finally show ?case .
qed

lemma deleteWorkerPods_effect:
  "deleteWorkerPods cl c job
     = c\<lparr>freeSlots := freeSlots c
           + int (length (filter (workerDeleted cl job) [0..<nat (maxReplicas job)]))\<rparr>"
  unfolding deleteWorkerPods_def by (rule foldl_removeWorker)

lemma cleanUpWorkerPods_effect:
  "cleanUpWorkerPods cl c job
     = (deletePodGroups cl (jobKey job),
        c\<lparr>freeSlots := freeSlots c
           + int (length (filter (workerDeleted cl job) [0..<nat (maxReplicas job)]))\<rparr>)"
  by (simp add: cleanUpWorkerPods_def deleteWorkerPods_effect Let_def split: option.splits)

lemma pickNext_effect:
  assumes "pickNext s = (it, s')" and "pointersValid s"
  shows "ctrl s' = ctrl s \<and> numFreeWorkers s' = numFreeWorkers s \<and> pointersValid s'
       \<and> (case it of None \<Rightarrow> True
           | Some i \<Rightarrow> i \<in> set (runningJobs (ctrl s) @ queuedJobs (ctrl s)))"
  using assms
  by (auto simp: pickNext_def Let_def pointersValid_def split: if_splits option.splits)

lemma expandPicked_Continue:
  assumes "expandPicked cl it s = Continue s'"
  shows "fixedPart (ctrl s') = fixedPart (ctrl s)
       \<and> itQueued s' = itQueued s \<and> itRunning s' = itRunning s
       \<and> idxQueued s' = idxQueued s \<and> idxRunning s' = idxRunning s
       \<and> (latestReplicas (ctrl s') k = latestReplicas (ctrl s) k \<or> k = jobKey (mpiJob it))"
  using assms
  by (auto simp: expandPicked_def Let_def fixedPart_def split: if_splits sum.splits)

lemma expandPicked_Break:
  "expandPicked cl it s = Break (out, s') \<Longrightarrow> s' = s"
  by (auto simp: expandPicked_def Let_def split: if_splits sum.splits)

lemma remove_absent:
  "key \<notin> (\<lambda>it. jobKey (mpiJob it)) ` set (drop idx backing)
   \<Longrightarrow> removeFromRunningJobs key backing len idx = Some (take len backing)"
proof (induction key backing len idx rule: removeFromRunningJobs.induct)
  case (1 key backing len idx)
  show ?case
  proof (cases "idx \<ge> length backing")
    case True
    then show ?thesis by (subst removeFromRunningJobs.simps) simp
  next
    case False
    then have "backing ! idx \<in> set (drop idx backing)"
      by (metis Cons_nth_drop_Suc list.set_intros(1) not_le)
    with "1.prems" have ne: "jobKey (mpiJob (backing ! idx)) \<noteq> key" by blast
    have "set (drop (idx + 1) backing) \<subseteq> set (drop idx backing)"
      by (rule set_drop_subset_set_drop) simp
    with "1.prems" have "key \<notin> (\<lambda>it. jobKey (mpiJob it)) ` set (drop (idx + 1) backing)"
      by blast
    with "1.IH"(2) False ne
    have "removeFromRunningJobs key backing len (idx + 1) = Some (take len backing)" by simp
    with False ne show ?thesis by (subst removeFromRunningJobs.simps) simp
  qed
qed

lemma distinct_nth_others:
  assumes d: "distinct (map f xs)" and i: "i < length xs"
  shows "(\<forall>x \<in> set (take i xs). f x \<noteq> f (xs ! i))
       \<and> (\<forall>x \<in> set (drop (Suc i) xs). f x \<noteq> f (xs ! i))"
proof -
  have xs: "xs = take i xs @ xs ! i # drop (Suc i) xs"
    using i by (rule id_take_nth_drop)
  from d have "distinct (map f (take i xs @ xs ! i # drop (Suc i) xs))"
    using xs by simp
  then have "f (xs ! i) \<notin> f ` set (take i xs)" and "f (xs ! i) \<notin> f ` set (drop (Suc i) xs)"
    by auto
  then show ?thesis by (metis imageI)
qed

lemma filter_remove_nth:
  assumes d: "distinct (map f xs)" and i: "i < length xs"
  shows "filter (\<lambda>x. f x \<noteq> f (xs ! i)) xs = take i xs @ drop (Suc i) xs"
proof -
  have xs: "xs = take i xs @ xs ! i # drop (Suc i) xs"
    using i by (rule id_take_nth_drop)
  have "filter (\<lambda>x. f x \<noteq> f (xs ! i)) (take i xs @ xs ! i # drop (Suc i) xs)
          = take i xs @ drop (Suc i) xs"
    using distinct_nth_others [OF d i] by (simp add: filter_id_conv)
  with xs show ?thesis by simp
qed

lemma remove_distinct:
  assumes d: "distinct (map (\<lambda>it. jobKey (mpiJob it)) xs)"
    and pre: "key \<notin> (\<lambda>it. jobKey (mpiJob it)) ` set (take idx xs)"
    and le: "idx \<le> length xs"
  shows "removeFromRunningJobs key xs (length xs) idx
           = Some (filter (\<lambda>it. jobKey (mpiJob it) \<noteq> key) xs)"
  using pre le
proof (induction "length xs - idx" arbitrary: idx)
  case 0
  then have idx: "idx = length xs" by simp
  with "0.prems" have "\<forall>x \<in> set xs. jobKey (mpiJob x) \<noteq> key" by auto
  then have "filter (\<lambda>it. jobKey (mpiJob it) \<noteq> key) xs = xs" by (simp add: filter_id_conv)
  with idx show ?case by (subst removeFromRunningJobs.simps) simp
next
  case (Suc n)
  then have lt: "idx < length xs" by simp
  show ?case
  proof (cases "jobKey (mpiJob (xs ! idx)) = key")
    case False
    have "take (Suc idx) xs = take idx xs @ [xs ! idx]"
      using lt by (rule take_Suc_conv_app_nth)
    with Suc.prems(1) False
    have "key \<notin> (\<lambda>it. jobKey (mpiJob it)) ` set (take (idx + 1) xs)" by auto
    moreover from Suc.hyps(2) have "n = length xs - (idx + 1)" by simp
    moreover from lt have "idx + 1 \<le> length xs" by simp
    ultimately have "removeFromRunningJobs key xs (length xs) (idx + 1)
                       = Some (filter (\<lambda>it. jobKey (mpiJob it) \<noteq> key) xs)"
      using Suc.hyps(1) by blast
    with lt False show ?thesis by (subst removeFromRunningJobs.simps) simp
  next
    case True
    let ?b = "take idx xs @ drop (idx + 1) (take (length xs) xs) @ drop (length xs - 1) xs"
    let ?f = "\<lambda>it. jobKey (mpiJob it)"
    have flt: "filter (\<lambda>it. ?f it \<noteq> key) xs = take idx xs @ drop (Suc idx) xs"
      using filter_remove_nth [OF d lt] True by simp
    have rest: "\<forall>x \<in> set (drop (Suc idx) xs). ?f x \<noteq> key"
      using distinct_nth_others [OF d lt] True by simp
    have "drop (idx + 1) ?b = drop 1 (drop (idx + 1) xs @ drop (length xs - 1) xs)"
      using lt by simp
    moreover have "set (drop 1 (drop (idx + 1) xs @ drop (length xs - 1) xs))
                     \<subseteq> set (drop (Suc idx) xs)"
    proof (cases "idx + 1 = length xs")
      case True
      then show ?thesis by simp
    next
      case False
      with lt have "idx + 1 \<le> length xs - 1" by simp
      then have "set (drop (length xs - 1) xs) \<subseteq> set (drop (idx + 1) xs)"
        by (rule set_drop_subset_set_drop)
      moreover have "set (drop 1 (drop (idx + 1) xs @ drop (length xs - 1) xs))
                       \<subseteq> set (drop (idx + 1) xs @ drop (length xs - 1) xs)"
        by (rule set_drop_subset)
      ultimately show ?thesis by auto
    qed
    ultimately have "key \<notin> ?f ` set (drop (idx + 1) ?b)"
      using rest by auto
    then have "removeFromRunningJobs key ?b (length xs - 1) (idx + 1)
                 = Some (take (length xs - 1) ?b)"
      by (rule remove_absent)
    moreover have "take (length xs - 1) ?b = take idx xs @ drop (Suc idx) xs"
      using lt by simp
    ultimately show ?thesis
      using lt True flt by (subst removeFromRunningJobs.simps) simp
  qed
qed

lemma syncHandler_finished:
  "completionObserved cl key job \<Longrightarrow> syncHandler cl c key = syncFinished cl c key job"
  by (simp add: completionObserved_def syncHandler_def)

lemma rebalanceStep_ContinueE:
  "rebalanceStep cl s = Continue s'
   \<Longrightarrow> \<exists>it s1. pickNext s = (Some it, s1) \<and> expandPicked cl it s1 = Continue s'"
  by (auto simp: rebalanceStep_def split: if_splits prod.splits option.splits)

lemma rebalanceStep_Break:
  assumes "rebalanceStep cl s = Break (out, s')" and "pointersValid s"
  shows "ctrl s' = ctrl s"
proof (cases "numFreeWorkers s = 0
         \<or> (idxRunning s = length (runningJobs (ctrl s))
             \<and> idxQueued s = length (queuedJobs (ctrl s)))")
  case True
  with assms(1) show ?thesis by (simp add: rebalanceStep_def)
next
  case False
  obtain it s1 where p: "pickNext s = (it, s1)" by (cases "pickNext s") auto
  from pickNext_effect [OF p assms(2)] have c: "ctrl s1 = ctrl s" by simp
  show ?thesis
  proof (cases it)
    case None
    with assms(1) False p c show ?thesis by (simp add: rebalanceStep_def)
  next
    case (Some i)
    with assms(1) False p have "expandPicked cl i s1 = Break (out, s')"
      by (simp add: rebalanceStep_def)
    then have "s' = s1" by (rule expandPicked_Break)
    with c show ?thesis by simp
  qed
qed

lemma pointersValid_cong:
  "fixedPart (ctrl s') = fixedPart (ctrl s) \<Longrightarrow> itQueued s' = itQueued s
   \<Longrightarrow> itRunning s' = itRunning s \<Longrightarrow> pointersValid s \<Longrightarrow> pointersValid s'"
  by (auto simp: pointersValid_def fixedPart_def split: option.splits)

lemma rebalanceLoop_effect:
  assumes run: "rebalanceLoop cl s = Some (out, s')" and pv: "pointersValid s"
  shows "fixedPart (ctrl s') = fixedPart (ctrl s)
       \<and> (latestReplicas (ctrl s') k = latestReplicas (ctrl s) k
           \<or> k \<in> set (map (\<lambda>it. jobKey (mpiJob it))
                        (runningJobs (ctrl s) @ queuedJobs (ctrl s))))"
proof -
  let ?K = "set (map (\<lambda>it. jobKey (mpiJob it)) (runningJobs (ctrl s) @ queuedJobs (ctrl s)))"
  let ?I = "\<lambda>t. pointersValid t \<and> fixedPart (ctrl t) = fixedPart (ctrl s)
              \<and> (latestReplicas (ctrl t) k = latestReplicas (ctrl s) k \<or> k \<in> ?K)"
  let ?Q = "\<lambda>r :: outcome \<times> rebalance_state. fixedPart (ctrl (snd r)) = fixedPart (ctrl s)
              \<and> (latestReplicas (ctrl (snd r)) k = latestReplicas (ctrl s) k \<or> k \<in> ?K)"
  have "?Q (out, s')"
  proof (rule rebalanceLoop_invariant [where I = ?I and Q = ?Q, OF run])
    show "?I s" using pv by simp
  next
    fix t t'
    assume inv: "?I t" and st: "rebalanceStep cl t = Continue t'"
    from rebalanceStep_ContinueE [OF st] obtain it t1
      where p: "pickNext t = (Some it, t1)" and e: "expandPicked cl it t1 = Continue t'"
      by blast
    from inv have pvt: "pointersValid t" by simp
    from pickNext_effect [OF p pvt]
    have c1: "ctrl t1 = ctrl t" and pv1: "pointersValid t1"
      and mem: "it \<in> set (runningJobs (ctrl t) @ queuedJobs (ctrl t))" by simp_all
    from expandPicked_Continue [OF e, of k]
    have f: "fixedPart (ctrl t') = fixedPart (ctrl t1)"
      and q: "itQueued t' = itQueued t1" and r: "itRunning t' = itRunning t1"
      and l: "latestReplicas (ctrl t') k = latestReplicas (ctrl t1) k \<or> k = jobKey (mpiJob it)"
      by simp_all
    from f q r pv1 have "pointersValid t'" by (rule pointersValid_cong)
    moreover from f c1 inv have fs: "fixedPart (ctrl t') = fixedPart (ctrl s)" by simp
    moreover from inv have "runningJobs (ctrl t) = runningJobs (ctrl s)"
      and "queuedJobs (ctrl t) = queuedJobs (ctrl s)" by (simp_all add: fixedPart_def)
    with mem have "jobKey (mpiJob it) \<in> ?K" by auto
    with l c1 inv have "latestReplicas (ctrl t') k = latestReplicas (ctrl s) k \<or> k \<in> ?K"
      by auto
    ultimately show "?I t'" by simp
  next
    fix t r
    assume inv: "?I t" and st: "rebalanceStep cl t = Break r"
    obtain o' t' where r: "r = (o', t')" by (cases r) auto
    from st r inv have "ctrl t' = ctrl t" by (auto dest: rebalanceStep_Break)
    with inv r show "?Q r" by simp
  qed
  then show ?thesis by simp
qed

lemma syncFinished_effect:
  assumes run: "syncFinished cl c key job = Some (out, c')" and tracked: "jobStatus c key \<noteq> None"
  shows "jobStatus c' = (jobStatus c)(key := None)
       \<and> configMaps c' = (configMaps c)(key := None)
       \<and> deferredAction c' = (deferredAction c)(key := None)
       \<and> (case removeFromRunningJobs (jobKey job) (runningJobs c) (length (runningJobs c)) 0 of
            None \<Rightarrow> out = Panic
          | Some remaining \<Rightarrow>
              runningJobs c' = remaining
              \<and> (latestReplicas c' k = ((latestReplicas c)(key := None)) k
                  \<or> k \<in> set (map (\<lambda>it. jobKey (mpiJob it)) (remaining @ queuedJobs c)))
              \<and> freeSlots c' = freeSlots c
                  + (if isCleanUpPods (cleanPodPolicy job)
                     then int (length (filter (workerDeleted cl job) [0..<nat (maxReplicas job)]))
                          + (if deletePodGroups cl (jobKey job) = None then 1 else 0)
                     else 0))"
proof -
  let ?c0 = "c\<lparr>deferredAction := (deferredAction c)(key := None),
               latestReplicas := (latestReplicas c)(key := None),
               jobStatus := (jobStatus c)(key := None),
               configMaps := (configMaps c)(key := None)\<rparr>"
  show ?thesis
  proof (cases "removeFromRunningJobs (jobKey job) (runningJobs c) (length (runningJobs c)) 0")
    case None
    with run tracked have "out = Panic" and "c' = ?c0"
      by (simp_all add: syncFinished_def)
    with None show ?thesis by simp
  next
    case (Some remaining)
    let ?c1 = "?c0\<lparr>runningJobs := remaining\<rparr>"
    show ?thesis
    proof (cases "isCleanUpPods (cleanPodPolicy job)")
      case False
      with run tracked Some have "c' = ?c1" by (simp add: syncFinished_def)
      with Some False show ?thesis by simp
    next
      case True
      let ?d = "int (length (filter (workerDeleted cl job) [0..<nat (maxReplicas job)]))"
      let ?c2 = "?c1\<lparr>freeSlots := freeSlots c + ?d\<rparr>"
      have cu: "cleanUpWorkerPods cl ?c1 job = (deletePodGroups cl (jobKey job), ?c2)"
        by (simp add: cleanUpWorkerPods_effect)
      show ?thesis
      proof (cases "deletePodGroups cl (jobKey job)")
        case (Some err)
        with run tracked \<open>removeFromRunningJobs _ _ _ _ = Some remaining\<close> True cu
        have "c' = ?c2" by (simp add: syncFinished_def)
        with \<open>removeFromRunningJobs _ _ _ _ = Some remaining\<close> True Some show ?thesis by simp
      next
        case None
        let ?c3 = "?c2\<lparr>freeSlots := freeSlots c + ?d + 1\<rparr>"
        let ?s0 = "\<lparr>ctrl = ?c3, numFreeWorkers = freeSlots c + ?d + 1, idxRunning = 0,
                    idxQueued = 0, itQueued = None, itRunning = None\<rparr>"
        have pv: "pointersValid ?s0" by (simp add: pointersValid_def)
        from run tracked \<open>removeFromRunningJobs _ _ _ _ = Some remaining\<close> True cu None
        have res: "(case rebalanceLoop cl ?s0 of
                 None \<Rightarrow> None
               | Some (Done, s) \<Rightarrow>
                   (let c = ctrl s in
                    if idxQueued s > length (queuedJobs c) then Some (Panic, c)
                    else
                      (let c = c\<lparr>queuedJobs := drop (idxQueued s) (queuedJobs c)\<rparr> in
                       case updateStatusHandler cl key of
                         Some err \<Rightarrow> Some (Failed err, c)
                       | None \<Rightarrow> Some (Done, c)))
               | Some (out, s) \<Rightarrow> Some (out, ctrl s)) = Some (out, c')"
          by (simp add: syncFinished_def)
        then obtain o1 s1 where loop: "rebalanceLoop cl ?s0 = Some (o1, s1)"
          by (cases "rebalanceLoop cl ?s0") auto
        from rebalanceLoop_effect [OF loop pv, of k]
        have f: "fixedPart (ctrl s1) = fixedPart ?c3"
          and l: "latestReplicas (ctrl s1) k = ((latestReplicas c)(key := None)) k
                  \<or> k \<in> set (map (\<lambda>it. jobKey (mpiJob it)) (remaining @ queuedJobs c))"
          by simp_all
        from res loop have "c' = ctrl s1
              \<or> c' = (ctrl s1)\<lparr>queuedJobs := drop (idxQueued s1) (queuedJobs (ctrl s1))\<rparr>"
          by (cases o1) (auto simp: Let_def split: if_splits option.splits)
        then have "jobStatus c' = jobStatus (ctrl s1) \<and> configMaps c' = configMaps (ctrl s1)
             \<and> deferredAction c' = deferredAction (ctrl s1) \<and> freeSlots c' = freeSlots (ctrl s1)
             \<and> runningJobs c' = runningJobs (ctrl s1)
             \<and> latestReplicas c' = latestReplicas (ctrl s1)"
          by auto
        with f l \<open>removeFromRunningJobs _ _ _ _ = Some remaining\<close> True None
        show ?thesis by (simp add: fixedPart_def)
      qed
    qed
  qed
qed

text \<open>
  C2: a step of the expansion loop should reduce the budget by the number of workers
  it adds. It does not: job \<open>b\<close> goes from five workers to eight, three are added, and
  the budget of five does not become two but \<open>5 - 8 = -3\<close>: the whole new replica count
  is subtracted.
\<close>

theorem rebalance_budget_counterexample:
  "(case rebalanceStep expansionCluster expansionState of
      Continue s \<Rightarrow> Some (latestReplicas (ctrl s) ''ml/b'', numFreeWorkers s, queue (ctrl s))
    | Break r \<Rightarrow> None) = Some (Some 8, -3, [''ml/b''])
   \<and> latestReplicas (ctrl expansionState) ''ml/b'' = Some 5
   \<and> numFreeWorkers expansionState = 5"
  by code_simp

text \<open>
  The completion pass returns, with \<^verbatim>\<open>nil\<close> or an error and without a panic, whenever
  no queue entry has a negative priority and no key is twice in \<^verbatim>\<open>runningJobs\<close>: the
  expansion loop then passes one entry in each turn, and the item it takes is never
  \<^verbatim>\<open>nil\<close>.
\<close>

lemma pickNext_progress:
  assumes "pickNext s = (it, s')" and "cursorsInRange s"
    and "\<not> (idxRunning s = length (runningJobs (ctrl s))
            \<and> idxQueued s = length (queuedJobs (ctrl s)))"
  shows "cursorsInRange s' \<and> entriesLeft s' < entriesLeft s"
proof -
  let ?c = "ctrl s"
  from assms(2) have r: "idxRunning s \<le> length (runningJobs ?c)"
    and q: "idxQueued s \<le> length (queuedJobs ?c)"
    and pr: "\<forall>it \<in> set (runningJobs ?c). 0 \<le> specPriority (mpiJob it)"
    and pq: "\<forall>it \<in> set (queuedJobs ?c). 0 \<le> specPriority (mpiJob it)"
    by (auto simp: cursorsInRange_def list_all_iff)
  show ?thesis
  proof (cases "idxRunning s < length (runningJobs ?c)")
    case rlt: True
    with pr have rp: "0 \<le> specPriority (mpiJob (runningJobs ?c ! idxRunning s))" by simp
    show ?thesis
    proof (cases "idxQueued s < length (queuedJobs ?c)")
      case True
      with assms(1,2) rlt show ?thesis
        by (auto simp: pickNext_def Let_def cursorsInRange_def entriesLeft_def split: if_splits)
    next
      case False
      with assms(1,2) rlt rp show ?thesis
        by (auto simp: pickNext_def Let_def cursorsInRange_def entriesLeft_def split: if_splits)
    qed
  next
    case False
    with r assms(3) q have qlt: "idxQueued s < length (queuedJobs ?c)" by simp
    with pq have "0 \<le> specPriority (mpiJob (queuedJobs ?c ! idxQueued s))" by simp
    with assms(1,2) False qlt show ?thesis
      by (auto simp: pickNext_def Let_def cursorsInRange_def entriesLeft_def split: if_splits)
  qed
qed

lemma rebalanceStep_progress:
  assumes st: "rebalanceStep cl s = Continue s'" and inv: "cursorsInRange s"
  shows "cursorsInRange s' \<and> entriesLeft s' < entriesLeft s"
proof -
  from st have ne: "\<not> (idxRunning s = length (runningJobs (ctrl s))
                        \<and> idxQueued s = length (queuedJobs (ctrl s)))"
    by (auto simp: rebalanceStep_def split: if_splits)
  from rebalanceStep_ContinueE [OF st] obtain it s1
    where p: "pickNext s = (Some it, s1)" and e: "expandPicked cl it s1 = Continue s'" by blast
  from pickNext_progress [OF p inv ne]
  have i1: "cursorsInRange s1" and m1: "entriesLeft s1 < entriesLeft s" by simp_all
  from expandPicked_Continue [OF e, of undefined]
  have "fixedPart (ctrl s') = fixedPart (ctrl s1)" and "idxQueued s' = idxQueued s1"
    and "idxRunning s' = idxRunning s1" by simp_all
  with i1 m1 show ?thesis
    by (simp add: cursorsInRange_def entriesLeft_def fixedPart_def)
qed

lemma rebalanceLoop_returns:
  "cursorsInRange s \<Longrightarrow> \<exists>r. rebalanceLoop cl s = Some r"
proof (induction "entriesLeft s" arbitrary: s rule: less_induct)
  case less
  show ?case
  proof (cases "rebalanceStep cl s")
    case (Break r)
    then have "rebalanceLoop cl s = Some r" by (subst rebalanceLoop.simps) simp
    then show ?thesis by blast
  next
    case (Continue s')
    from rebalanceStep_progress [OF Continue less.prems]
    have "cursorsInRange s'" and "entriesLeft s' < entriesLeft s" by simp_all
    then obtain r where "rebalanceLoop cl s' = Some r" using less.hyps by blast
    with Continue have "rebalanceLoop cl s = Some r" by (subst rebalanceLoop.simps) simp
    then show ?thesis by blast
  qed
qed

lemma pickNext_Some:
  assumes "cursorsInRange s"
    and "\<not> (idxRunning s = length (runningJobs (ctrl s))
            \<and> idxQueued s = length (queuedJobs (ctrl s)))"
  shows "fst (pickNext s) \<noteq> None"
proof -
  let ?c = "ctrl s"
  from assms(1) have r: "idxRunning s \<le> length (runningJobs ?c)"
    and q: "idxQueued s \<le> length (queuedJobs ?c)"
    and pr: "\<forall>it \<in> set (runningJobs ?c). 0 \<le> specPriority (mpiJob it)"
    and pq: "\<forall>it \<in> set (queuedJobs ?c). 0 \<le> specPriority (mpiJob it)"
    by (auto simp: cursorsInRange_def list_all_iff)
  show ?thesis
  proof (cases "idxRunning s < length (runningJobs ?c)")
    case rlt: True
    with pr have rp: "0 \<le> specPriority (mpiJob (runningJobs ?c ! idxRunning s))" by simp
    show ?thesis
    proof (cases "idxQueued s < length (queuedJobs ?c)")
      case True
      with rlt show ?thesis by (simp add: pickNext_def Let_def)
    next
      case False
      with rlt rp show ?thesis by (simp add: pickNext_def Let_def)
    qed
  next
    case False
    with r assms(2) q have qlt: "idxQueued s < length (queuedJobs ?c)" by simp
    with pq have "0 \<le> specPriority (mpiJob (queuedJobs ?c ! idxQueued s))" by simp
    with False qlt show ?thesis by (simp add: pickNext_def Let_def)
  qed
qed

lemma rebalanceStep_exit:
  assumes st: "rebalanceStep cl s = Break (out, s')" and inv: "cursorsInRange s"
  shows "out \<noteq> Panic \<and> idxQueued s' \<le> length (queuedJobs (ctrl s'))"
proof (cases "numFreeWorkers s = 0
         \<or> (idxRunning s = length (runningJobs (ctrl s))
             \<and> idxQueued s = length (queuedJobs (ctrl s)))")
  case True
  with st inv show ?thesis by (auto simp: rebalanceStep_def cursorsInRange_def)
next
  case False
  then have ne: "\<not> (idxRunning s = length (runningJobs (ctrl s))
                      \<and> idxQueued s = length (queuedJobs (ctrl s)))" by simp
  obtain it s1 where p: "pickNext s = (it, s1)" by (cases "pickNext s") auto
  from pickNext_Some [OF inv ne] p obtain i where it: "it = Some i" by (cases it) auto
  from pickNext_progress [OF p inv ne] have i1: "cursorsInRange s1" by simp
  from st False p it have e: "expandPicked cl i s1 = Break (out, s')"
    by (simp add: rebalanceStep_def)
  then have "s' = s1" by (rule expandPicked_Break)
  moreover from e have "out \<noteq> Panic"
    by (auto simp: expandPicked_def Let_def split: sum.splits if_splits)
  ultimately show ?thesis using i1 by (simp add: cursorsInRange_def)
qed

lemma rebalanceLoop_exit:
  assumes run: "rebalanceLoop cl s = Some (out, s')" and inv: "cursorsInRange s"
  shows "out \<noteq> Panic \<and> idxQueued s' \<le> length (queuedJobs (ctrl s'))"
proof -
  let ?Q = "\<lambda>r :: outcome \<times> rebalance_state.
              fst r \<noteq> Panic \<and> idxQueued (snd r) \<le> length (queuedJobs (ctrl (snd r)))"
  have "?Q (out, s')"
  proof (rule rebalanceLoop_invariant [where I = cursorsInRange and Q = ?Q, OF run inv])
    fix t t'
    assume "cursorsInRange t" and "rebalanceStep cl t = Continue t'"
    then show "cursorsInRange t'" using rebalanceStep_progress by blast
  next
    fix t r
    assume i: "cursorsInRange t" and b: "rebalanceStep cl t = Break r"
    obtain o' t' where "r = (o', t')" by (cases r) auto
    with rebalanceStep_exit [OF _ i] b show "?Q r" by simp
  qed
  then show ?thesis by simp
qed

lemma syncFinished_total:
  assumes nonneg: "list_all (\<lambda>it. 0 \<le> specPriority (mpiJob it)) (runningJobs c @ queuedJobs c)"
    and dist: "distinct (map (\<lambda>it. jobKey (mpiJob it)) (runningJobs c))"
  shows "\<exists>out c'. syncFinished cl c key job = Some (out, c') \<and> out \<noteq> Panic"
proof (cases "jobStatus c key = None")
  case True
  then show ?thesis by (simp add: syncFinished_def)
next
  case tracked: False
  let ?c0 = "c\<lparr>deferredAction := (deferredAction c)(key := None),
               latestReplicas := (latestReplicas c)(key := None),
               jobStatus := (jobStatus c)(key := None),
               configMaps := (configMaps c)(key := None)\<rparr>"
  let ?rest = "filter (\<lambda>it. jobKey (mpiJob it) \<noteq> jobKey job) (runningJobs c)"
  have rm: "removeFromRunningJobs (jobKey job) (runningJobs c) (length (runningJobs c)) 0
              = Some ?rest"
    by (rule remove_distinct [OF dist]) simp_all
  show ?thesis
  proof (cases "isCleanUpPods (cleanPodPolicy job)")
    case False
    with tracked rm show ?thesis by (simp add: syncFinished_def)
  next
    case True
    let ?d = "int (length (filter (workerDeleted cl job) [0..<nat (maxReplicas job)]))"
    let ?c1 = "?c0\<lparr>runningJobs := ?rest\<rparr>"
    let ?c2 = "?c1\<lparr>freeSlots := freeSlots c + ?d\<rparr>"
    have cu: "cleanUpWorkerPods cl ?c1 job = (deletePodGroups cl (jobKey job), ?c2)"
      by (simp add: cleanUpWorkerPods_effect)
    show ?thesis
    proof (cases "deletePodGroups cl (jobKey job)")
      case (Some err)
      with tracked rm True cu show ?thesis by (simp add: syncFinished_def)
    next
      case None
      let ?s0 = "\<lparr>ctrl = ?c2\<lparr>freeSlots := freeSlots c + ?d + 1\<rparr>,
                  numFreeWorkers = freeSlots c + ?d + 1, idxRunning = 0,
                  idxQueued = 0, itQueued = None, itRunning = None\<rparr>"
      from nonneg have inv: "cursorsInRange ?s0"
        by (auto simp: cursorsInRange_def list_all_iff)
      then obtain r where "rebalanceLoop cl ?s0 = Some r"
        using rebalanceLoop_returns by blast
      then obtain o1 s1 where loop: "rebalanceLoop cl ?s0 = Some (o1, s1)" by (cases r) auto
      from rebalanceLoop_exit [OF loop inv]
      have np: "o1 \<noteq> Panic" and le: "idxQueued s1 \<le> length (queuedJobs (ctrl s1))"
        by simp_all
      from tracked rm True cu None loop np le show ?thesis
        by (cases o1) (auto simp: syncFinished_def Let_def split: option.splits)
    qed
  qed
qed

lemma finished_observed:
  "completionObserved finishedCluster ''ml/a''
     (jobA\<lparr>statusFinished := True, completionTime := True\<rparr>)"
  by (simp add: completionObserved_def finishedCluster_def emptyCluster_def jobA_def newMPIJob_def)

lemma finishing_setup:
  "jobKey (jobA\<lparr>statusFinished := True, completionTime := True\<rparr>) = ''ml/a''
   \<and> jobStatus finishingController ''ml/a'' \<noteq> None
   \<and> distinct (map (\<lambda>it. jobKey (mpiJob it)) (runningJobs finishingController))
   \<and> ''ml/a'' \<notin> set (map (\<lambda>it. jobKey (mpiJob it)) (queuedJobs finishingController))
   \<and> isCleanUpPods (cleanPodPolicy (jobA\<lparr>statusFinished := True, completionTime := True\<rparr>))
   \<and> deletePodGroups finishedCluster ''ml/a'' = None
   \<and> freeSlots finishingController = 5"
  by (simp add: finishingController_def NewMPIJobController_def jobA_def newMPIJob_def
                isCleanUpPods_def finishedCluster_def emptyCluster_def)

lemma finishing_deletes_four:
  "int (length (filter (workerDeleted finishedCluster
          (jobA\<lparr>statusFinished := True, completionTime := True\<rparr>))
          [0..<nat (maxReplicas (jobA\<lparr>statusFinished := True, completionTime := True\<rparr>))])) = 4"
  by code_simp

lemma finishing_priorities:
  "list_all (\<lambda>it. 0 \<le> specPriority (mpiJob it))
     (runningJobs finishingController @ queuedJobs finishingController)"
  by (simp add: finishingController_def NewMPIJobController_def jobA_def newMPIJob_def)




text \<open>
  C7, as the specification states it: the completion cleanup releases the launcher's
  slot whatever the clean-pod policy, and deletes the job's entry from
  \<^verbatim>\<open>latestReplicas\<close>. Under the policy \<^verbatim>\<open>None\<close> it releases no slot: the job is
  forgotten and \<^verbatim>\<open>freeSlots\<close> stays at five. And when the job is also waiting in
  \<^verbatim>\<open>queuedJobs\<close> (\<open>requeuedFinishing\<close>), the expansion loop that follows the cleanup
  writes its entry of \<^verbatim>\<open>latestReplicas\<close> anew and puts its key on the work queue.
\<close>

theorem launcher_slot_kept_counterexample:
  "map_option (\<lambda>(out, c'). (out, freeSlots c', jobStatus c' ''ml/a''))
     (syncHandler keepingCluster finishingController ''ml/a'') = Some (Done, 5, None)
   \<and> freeSlots finishingController = 5
   \<and> jobStatus finishingController ''ml/a'' = Some running
   \<and> map_option (\<lambda>(out, c'). (out, latestReplicas c' ''ml/a'', queue c'))
       (syncHandler halfCluster requeuedFinishing ''ml/a'') = Some (Done, Some 4, [''ml/a''])"
  by code_simp

text \<open>
  C7, amended: take the pass that observes the completion of a job \<open>key\<close> that the
  controller tracks, where \<open>key\<close> is the key of the job the lister returns and each
  key is at most once in \<^verbatim>\<open>runningJobs\<close>. The pass returns, with \<^verbatim>\<open>nil\<close> or an error
  and without a panic, at least when no entry of the two queues has a negative
  priority. Whenever it has returned, it has removed the entry of the job, and no
  other, from \<^verbatim>\<open>runningJobs\<close>, and the entry of \<open>key\<close>, and no other, from
  \<^verbatim>\<open>jobStatus\<close>, \<^verbatim>\<open>configMaps\<close> and \<^verbatim>\<open>deferredAction\<close>. In \<^verbatim>\<open>latestReplicas\<close> the
  entries of the jobs left in \<^verbatim>\<open>runningJobs\<close> and of those in \<^verbatim>\<open>queuedJobs\<close> may have
  been rewritten by the expansion loop; every other entry is as before, except that
  of \<open>key\<close>, which is deleted (so it is deleted unless the job is also in
  \<^verbatim>\<open>queuedJobs\<close>). When the clean-pod policy is \<^verbatim>\<open>All\<close> or \<^verbatim>\<open>Running\<close> the pass has
  released one slot per deleted worker pod, and one more for the launcher if the pod
  group was deleted without error; under the policy \<^verbatim>\<open>None\<close> it has released no
  slot.
\<close>

theorem completion_cleanup:
  assumes "completionObserved cl key job" and "jobKey job = key"
    and "jobStatus c key \<noteq> None"
    and "distinct (map (\<lambda>it. jobKey (mpiJob it)) (runningJobs c))"
  shows "(list_all (\<lambda>it. 0 \<le> specPriority (mpiJob it)) (runningJobs c @ queuedJobs c)
          \<longrightarrow> (\<exists>out c'. syncHandler cl c key = Some (out, c') \<and> out \<noteq> Panic))
       \<and> (\<forall>out c'. syncHandler cl c key = Some (out, c') \<longrightarrow>
             runningJobs c' = filter (\<lambda>it. jobKey (mpiJob it) \<noteq> key) (runningJobs c)
           \<and> jobStatus c' = (jobStatus c)(key := None)
           \<and> configMaps c' = (configMaps c)(key := None)
           \<and> deferredAction c' = (deferredAction c)(key := None)
           \<and> (\<forall>k. k \<notin> set (map (\<lambda>it. jobKey (mpiJob it)) (runningJobs c' @ queuedJobs c))
                  \<longrightarrow> latestReplicas c' k = ((latestReplicas c)(key := None)) k)
           \<and> (key \<notin> set (map (\<lambda>it. jobKey (mpiJob it)) (queuedJobs c))
                  \<longrightarrow> latestReplicas c' key = None)
           \<and> freeSlots c' = freeSlots c
               + (if isCleanUpPods (cleanPodPolicy job)
                  then int (length (filter (workerDeleted cl job) [0..<nat (maxReplicas job)]))
                       + (if deletePodGroups cl key = None then 1 else 0)
                  else 0))"
proof (intro conjI impI allI)
  assume "list_all (\<lambda>it. 0 \<le> specPriority (mpiJob it)) (runningJobs c @ queuedJobs c)"
  then have "\<exists>out c'. syncFinished cl c key job = Some (out, c') \<and> out \<noteq> Panic"
    using assms(4) by (rule syncFinished_total)
  with assms(1) show "\<exists>out c'. syncHandler cl c key = Some (out, c') \<and> out \<noteq> Panic"
    by (simp add: syncHandler_finished)
next
  fix out c'
  assume "syncHandler cl c key = Some (out, c')"
  with assms(1) have run: "syncFinished cl c key job = Some (out, c')"
    by (simp add: syncHandler_finished)
  let ?f = "\<lambda>it. jobKey (mpiJob it)"
  let ?rest = "filter (\<lambda>it. ?f it \<noteq> key) (runningJobs c)"
  have "removeFromRunningJobs key (runningJobs c) (length (runningJobs c)) 0 = Some ?rest"
    by (rule remove_distinct [OF assms(4)]) simp_all
  with assms(2) have rm: "removeFromRunningJobs (jobKey job) (runningJobs c)
                            (length (runningJobs c)) 0 = Some ?rest" by simp
  have eff: "jobStatus c' = (jobStatus c)(key := None)
           \<and> configMaps c' = (configMaps c)(key := None)
           \<and> deferredAction c' = (deferredAction c)(key := None)
           \<and> runningJobs c' = ?rest
           \<and> (latestReplicas c' k = ((latestReplicas c)(key := None)) k
               \<or> k \<in> set (map ?f (?rest @ queuedJobs c)))
           \<and> freeSlots c' = freeSlots c
               + (if isCleanUpPods (cleanPodPolicy job)
                  then int (length (filter (workerDeleted cl job) [0..<nat (maxReplicas job)]))
                       + (if deletePodGroups cl key = None then 1 else 0)
                  else 0)" for k
    using syncFinished_effect [OF run assms(3), of k] rm assms(2) by simp
  from eff show rj: "runningJobs c' = ?rest" by simp
  from eff [of key] show "jobStatus c' = (jobStatus c)(key := None)"
    and "configMaps c' = (configMaps c)(key := None)"
    and "deferredAction c' = (deferredAction c)(key := None)"
    and "freeSlots c' = freeSlots c
               + (if isCleanUpPods (cleanPodPolicy job)
                  then int (length (filter (workerDeleted cl job) [0..<nat (maxReplicas job)]))
                       + (if deletePodGroups cl key = None then 1 else 0)
                  else 0)"
    by blast+
  have others: "latestReplicas c' k = ((latestReplicas c)(key := None)) k"
    if "k \<notin> set (map ?f (runningJobs c' @ queuedJobs c))" for k
  proof -
    from that rj have "k \<notin> set (map ?f (?rest @ queuedJobs c))" by simp
    moreover from eff [of k]
    have "latestReplicas c' k = ((latestReplicas c)(key := None)) k
            \<or> k \<in> set (map ?f (?rest @ queuedJobs c))" by blast
    ultimately show ?thesis by blast
  qed
  {
    fix k
    assume "k \<notin> set (map ?f (runningJobs c' @ queuedJobs c))"
    then show "latestReplicas c' k = ((latestReplicas c)(key := None)) k" by (rule others)
  }
  assume "key \<notin> set (map ?f (queuedJobs c))"
  moreover have "key \<notin> set (map ?f ?rest)" by auto
  ultimately have "key \<notin> set (map ?f (runningJobs c' @ queuedJobs c))" using rj by simp
  then have "latestReplicas c' key = ((latestReplicas c)(key := None)) key" by (rule others)
  then show "latestReplicas c' key = None" by simp
qed

theorem completion_cleanup_witness:
  "completionObserved finishedCluster ''ml/a''
     (jobA\<lparr>statusFinished := True, completionTime := True\<rparr>)
   \<and> jobKey (jobA\<lparr>statusFinished := True, completionTime := True\<rparr>) = ''ml/a''
   \<and> jobStatus finishingController ''ml/a'' \<noteq> None
   \<and> distinct (map (\<lambda>it. jobKey (mpiJob it)) (runningJobs finishingController))
   \<and> list_all (\<lambda>it. 0 \<le> specPriority (mpiJob it))
        (runningJobs finishingController @ queuedJobs finishingController)
   \<and> ''ml/a'' \<notin> set (map (\<lambda>it. jobKey (mpiJob it)) (queuedJobs finishingController))
   \<and> (\<exists>out c'. syncHandler finishedCluster finishingController ''ml/a'' = Some (out, c')
         \<and> out \<noteq> Panic
         \<and> runningJobs c' = []
         \<and> jobStatus c' = (jobStatus finishingController)(''ml/a'' := None)
         \<and> configMaps c' = (configMaps finishingController)(''ml/a'' := None)
         \<and> deferredAction c' = (deferredAction finishingController)(''ml/a'' := None)
         \<and> latestReplicas c' ''ml/a'' = None
         \<and> freeSlots c' = 5 + 4 + 1)"
proof -
  let ?job = "jobA\<lparr>statusFinished := True, completionTime := True\<rparr>"
  note s = finishing_setup
  from s have k: "jobKey ?job = ''ml/a''"
    and t: "jobStatus finishingController ''ml/a'' \<noteq> None"
    and d: "distinct (map (\<lambda>it. jobKey (mpiJob it)) (runningJobs finishingController))"
    and q: "''ml/a'' \<notin> set (map (\<lambda>it. jobKey (mpiJob it)) (queuedJobs finishingController))"
    by simp_all
  note cleanup = completion_cleanup [OF finished_observed k t d]
  from cleanup finishing_priorities obtain out c'
    where run: "syncHandler finishedCluster finishingController ''ml/a'' = Some (out, c')"
      and np: "out \<noteq> Panic"
    by blast
  with cleanup
  have rj: "runningJobs c' = filter (\<lambda>it. jobKey (mpiJob it) \<noteq> ''ml/a'')
                                  (runningJobs finishingController)"
    and js: "jobStatus c' = (jobStatus finishingController)(''ml/a'' := None)"
    and cm: "configMaps c' = (configMaps finishingController)(''ml/a'' := None)"
    and da: "deferredAction c' = (deferredAction finishingController)(''ml/a'' := None)"
    and lr: "''ml/a'' \<notin> set (map (\<lambda>it. jobKey (mpiJob it)) (queuedJobs finishingController))
               \<longrightarrow> latestReplicas c' ''ml/a'' = None"
    and fs: "freeSlots c' = freeSlots finishingController
           + (if isCleanUpPods (cleanPodPolicy ?job)
              then int (length (filter (workerDeleted finishedCluster ?job)
                                  [0..<nat (maxReplicas ?job)]))
                   + (if deletePodGroups finishedCluster ''ml/a'' = None then 1 else 0)
              else 0)"
    by blast+
  from rj have rj': "runningJobs c' = []"
    by (simp add: finishingController_def jobA_def newMPIJob_def)
  from lr q have lr': "latestReplicas c' ''ml/a'' = None" by simp
  from fs s finishing_deletes_four have fs': "freeSlots c' = 5 + 4 + 1" by simp
  from run np rj' js cm da lr' fs' finished_observed k t d q finishing_priorities
  show ?thesis by blast
qed


section \<open>The slot ledger along a trace\<close>

text \<open>
  C8: \<^verbatim>\<open>freeSlots\<close> should never be negative. After the six passes above it is \<open>-1\<close>:
  the promotion of the queued job \<open>y\<close> takes the launcher's slot without looking at
  \<^verbatim>\<open>freeSlots\<close>, which job \<open>z\<close> has emptied in the meantime.
\<close>

theorem freeSlots_goes_negative:
  "freeSlotsAlong NewMPIJobController passes = [10, 0, 0, 0, 10, 0, -1]"
  by code_simp

end
